theory Spec2Isabelle
  imports Main "HOL-Library.Char_ord" "HOL-Library.List_Lexorder"
begin

unbundle bit_operations_syntax

section \<open>Embedding of awscloud/MosoInterior.py\<close>

text \<open>
  The script is a sequence of calls into the cloud SDK, the HTTP library, the local file
  system and the console. The embedding keeps the script's functions and their control
  flow and makes the outside world explicit:
  \<^item> \<open>env\<close> holds what the outside answers: one field per SDK, HTTP or waiter call the
    script makes, returning either the exception raised or the response;
  \<^item> \<open>world\<close> is the state the script changes: the ordered log of everything it did
    (calls, prints, sleeps, file operations), the local files, and the number of health
    probes already answered;
  \<^item> every function returns \<open>(raised + result) \<times> world\<close>: \<open>Inl\<close> is the exception that
    leaves the function.
  Dictionaries of the SDK are records: a key the script reads with \<open>d['k']\<close> is a field,
  a key it reads with \<open>d.get('k', default)\<close> is an optional field. Lists may be empty,
  and indexing an empty list raises \<open>IndexError\<close>.
\<close>

subsection \<open>Exceptions\<close>

text \<open>
  \<open>py_exception\<close> are the subclasses of Python's \<open>Exception\<close> that the calls can raise;
  \<open>ClientError code message\<close> is botocore's, with \<open>e.response['Error']['Code']\<close>.
  \<open>SystemExit\<close> derives from \<open>BaseException\<close> only, so \<open>except Exception\<close> does not
  catch it: it is a separate constructor of \<open>raised\<close>.
\<close>

datatype py_exception =
    ClientError string string
  | PermissionError string
  | IndexError
  | OtherException string

fun str_exc :: "py_exception \<Rightarrow> string" where
  "str_exc (ClientError code msg) = msg"
| "str_exc (PermissionError msg) = msg"
| "str_exc IndexError = ''list index out of range''"
| "str_exc (OtherException msg) = msg"

datatype exit_arg = ExitCode int | ExitMsg string

datatype raised = Exc py_exception | SystemExit exit_arg

subsection \<open>Data of the SDK\<close>

record vpc =
  VpcId :: string

record subnet =
  SubnetId :: string

record security_group =
  GroupId :: string

record image =
  ImageId :: string
  CreationDate :: "string option"
  Name :: "string option"

record ingress_rule =
  IpProtocol :: "string option"
  FromPort :: int
  ToPort :: int
  CidrIps :: "string list option"

record ip_range =
  CidrIp :: string

record ip_permission =
  perm_IpProtocol :: string
  perm_FromPort :: int
  perm_ToPort :: int
  perm_IpRanges :: "ip_range list"

record ec2_instance =
  inst_id :: string
  public_ip_address :: "string option"
  private_ip_address :: "string option"

record load_balancer =
  LoadBalancerArn :: string
  DNSName :: string

record target_health_description =
  State :: string

record instance_request =
  req_ImageId :: string
  req_InstanceType :: string
  req_KeyName :: string
  req_SecurityGroupIds :: "string list"
  req_SubnetId :: string
  req_NameTag :: string

record local_file =
  content :: string
  mode :: nat

subsection \<open>The log of effects\<close>

text \<open>
  An argument of \<open>print\<close>: a string, an integer, a list of strings, an exception, or a
  string that may be \<open>None\<close>.
\<close>

datatype pyval = S string | I int | L "string list" | E py_exception | Opt "string option"

datatype event =
    Print "pyval list"
  | HttpGet string nat
  | DescribeVpcs
  | DescribeSubnets string
  | DescribeKeyPairs string
  | PathExists string
  | CreateKeyPair string
  | OsOpen string nat
  | FileWrite string string
  | Chmod string nat
  | DescribeSecurityGroups string string
  | CreateSecurityGroup string string string
  | AuthorizeSecurityGroupIngress string "ip_permission list"
  | DescribeImages string
  | GetParameter string
  | CreateInstances instance_request
  | WaitUntilRunning string
  | Reload string
  | CreateTargetGroup string int string
  | CreateLoadBalancer string "string list" string
  | CreateListener string string int
  | RegisterTargets string string int
  | DescribeTargetHealth string string
  | Sleep nat

record world =
  trace :: "event list"
  files :: "string \<Rightarrow> local_file option"
  health_probes :: nat

definition emit :: "event \<Rightarrow> world \<Rightarrow> world" where
  "emit e w = w\<lparr>trace := trace w @ [e]\<rparr>"

subsection \<open>The outside world\<close>

text \<open>
  One field per external call. \<open>ec2_describe_security_groups\<close> takes the group name and
  the VPC id of the two filters; \<open>inst_reload\<close> returns the public and the private
  address of the instance; \<open>elbv2_describe_target_health\<close> takes the number of probes
  answered before, so that the answer can change from one probe to the next.
  \<open>umask\<close> is the file-creation mask of the process, and \<open>is_superuser\<close> says whether the
  process runs as the superuser, whom file modes do not bind.
\<close>

record env =
  requests_get :: "string \<Rightarrow> nat \<Rightarrow> py_exception + string"
  ec2_describe_vpcs :: "py_exception + vpc list option"
  ec2_describe_subnets :: "string \<Rightarrow> py_exception + subnet list option"
  ec2_describe_key_pairs :: "string \<Rightarrow> py_exception + unit"
  ec2_create_key_pair :: "string \<Rightarrow> py_exception + string"
  ec2_describe_security_groups :: "string \<Rightarrow> string \<Rightarrow> py_exception + security_group list option"
  ec2_create_security_group :: "string \<Rightarrow> string \<Rightarrow> string \<Rightarrow> py_exception + string"
  ec2_authorize_security_group_ingress :: "string \<Rightarrow> ip_permission list \<Rightarrow> py_exception + unit"
  ec2_describe_images :: "string \<Rightarrow> py_exception + image list option"
  ssm_get_parameter :: "string \<Rightarrow> py_exception + string"
  ec2_create_instances :: "instance_request \<Rightarrow> py_exception + ec2_instance list"
  inst_wait_until_running :: "string \<Rightarrow> py_exception + unit"
  inst_reload :: "string \<Rightarrow> py_exception + string option \<times> string option"
  elbv2_create_target_group :: "string \<Rightarrow> int \<Rightarrow> string \<Rightarrow> py_exception + string list"
  elbv2_create_load_balancer :: "string \<Rightarrow> string list \<Rightarrow> string \<Rightarrow> py_exception + load_balancer list"
  elbv2_create_listener :: "string \<Rightarrow> string \<Rightarrow> int \<Rightarrow> py_exception + string list"
  elbv2_register_targets :: "string \<Rightarrow> string \<Rightarrow> int \<Rightarrow> py_exception + unit"
  elbv2_describe_target_health :: "nat \<Rightarrow> string \<Rightarrow> string \<Rightarrow> py_exception + target_health_description list option"
  umask :: nat
  is_superuser :: bool

text \<open>\<open>d.get(key, [])\<close> on a response: the list, or the empty list when the key is absent.\<close>

definition get_list :: "'a list option \<Rightarrow> 'a list" where
  "get_list r = (case r of None \<Rightarrow> [] | Some xs \<Rightarrow> xs)"

text \<open>Sequencing: the second step runs on the first one's result unless it raised.\<close>

definition bind_r ::
  "(raised + 'a) \<times> world \<Rightarrow> ('a \<Rightarrow> world \<Rightarrow> (raised + 'b) \<times> world) \<Rightarrow> (raised + 'b) \<times> world" where
  "bind_r m f = (case m of (Inl r, w) \<Rightarrow> (Inl r, w) | (Inr a, w) \<Rightarrow> f a w)"

subsection \<open>Configuration constants\<close>

definition TEMPLATE_NAME :: string where "TEMPLATE_NAME = ''MosoInterior''"
definition KEY_NAME :: string where "KEY_NAME = TEMPLATE_NAME @ ''-key''"
definition KEY_FILE :: string where "KEY_FILE = KEY_NAME @ ''.pem''"
definition EC2_SG_NAME :: string where "EC2_SG_NAME = TEMPLATE_NAME @ ''-sg-ec2''"
definition ALB_SG_NAME :: string where "ALB_SG_NAME = TEMPLATE_NAME @ ''-sg-alb''"
definition ALB_NAME :: string where "ALB_NAME = TEMPLATE_NAME @ ''-ALB''"
definition TG_NAME :: string where "TG_NAME = TEMPLATE_NAME @ ''-tg''"
definition INSTANCE_NAME :: string where "INSTANCE_NAME = TEMPLATE_NAME @ ''-web-1''"
definition INSTANCE_TYPE :: string where "INSTANCE_TYPE = ''t2.micro''"
definition HTTP_PORT :: int where "HTTP_PORT = 80"
definition SSH_PORT :: int where "SSH_PORT = 22"

subsection \<open>get_my_public_ip\<close>

text \<open>
  A string is the UTF-8 encoding of Python's \<open>str\<close>. \<open>str.strip()\<close> removes leading and
  trailing whitespace: the code points 9 to 13, 28 to 32, U+0085, U+00A0, U+1680, U+2000
  to U+200A, U+2028, U+2029, U+202F, U+205F and U+3000, here by their encodings. A lead
  byte never occurs inside the encoding of another code point, so a string that begins
  or ends with one of these encodings begins or ends with that code point.
\<close>

definition py_whitespace :: "string list" where
  "py_whitespace =
     [[CHR 0x09], [CHR 0x0A], [CHR 0x0B], [CHR 0x0C], [CHR 0x0D],
      [CHR 0x1C], [CHR 0x1D], [CHR 0x1E], [CHR 0x1F], [CHR 0x20],
      [CHR 0xC2, CHR 0x85], [CHR 0xC2, CHR 0xA0],
      [CHR 0xE1, CHR 0x9A, CHR 0x80],
      [CHR 0xE2, CHR 0x80, CHR 0x80], [CHR 0xE2, CHR 0x80, CHR 0x81],
      [CHR 0xE2, CHR 0x80, CHR 0x82], [CHR 0xE2, CHR 0x80, CHR 0x83],
      [CHR 0xE2, CHR 0x80, CHR 0x84], [CHR 0xE2, CHR 0x80, CHR 0x85],
      [CHR 0xE2, CHR 0x80, CHR 0x86], [CHR 0xE2, CHR 0x80, CHR 0x87],
      [CHR 0xE2, CHR 0x80, CHR 0x88], [CHR 0xE2, CHR 0x80, CHR 0x89],
      [CHR 0xE2, CHR 0x80, CHR 0x8A],
      [CHR 0xE2, CHR 0x80, CHR 0xA8], [CHR 0xE2, CHR 0x80, CHR 0xA9],
      [CHR 0xE2, CHR 0x80, CHR 0xAF],
      [CHR 0xE2, CHR 0x81, CHR 0x9F],
      [CHR 0xE3, CHR 0x80, CHR 0x80]]"

definition whitespace_prefix :: "string \<Rightarrow> string option" where
  "whitespace_prefix s = find (\<lambda>p. take (length p) s = p) py_whitespace"

definition whitespace_suffix :: "string \<Rightarrow> string option" where
  "whitespace_suffix s =
     find (\<lambda>p. length p \<le> length s \<and> drop (length s - length p) s = p) py_whitespace"

function py_lstrip :: "string \<Rightarrow> string" where
  "py_lstrip s = (case whitespace_prefix s of None \<Rightarrow> s | Some p \<Rightarrow> py_lstrip (drop (length p) s))"
  by pat_completeness auto
termination
proof (relation "measure length")
  show "wf (measure length)" by simp
next
  fix s p
  assume "whitespace_prefix s = Some p"
  then have p: "p \<in> set py_whitespace" and t: "take (length p) s = p"
    by (auto simp: whitespace_prefix_def find_Some_iff)
  from p have "p \<noteq> []" by (auto simp: py_whitespace_def)
  with t have "s \<noteq> []" by auto
  with \<open>p \<noteq> []\<close> show "(drop (length p) s, s) \<in> measure length" by simp
qed

function py_rstrip :: "string \<Rightarrow> string" where
  "py_rstrip s = (case whitespace_suffix s of None \<Rightarrow> s | Some p \<Rightarrow> py_rstrip (take (length s - length p) s))"
  by pat_completeness auto
termination
proof (relation "measure length")
  show "wf (measure length)" by simp
next
  fix s p
  assume "whitespace_suffix s = Some p"
  then have p: "p \<in> set py_whitespace" and t: "length p \<le> length s"
    by (auto simp: whitespace_suffix_def find_Some_iff)
  from p have "p \<noteq> []" by (auto simp: py_whitespace_def)
  with t have "s \<noteq> []" by auto
  with \<open>p \<noteq> []\<close> show "(take (length s - length p) s, s) \<in> measure length" by simp
qed

definition py_strip :: "string \<Rightarrow> string" where
  "py_strip s = py_rstrip (py_lstrip s)"

declare py_lstrip.simps [simp del] py_rstrip.simps [simp del]

definition CHECKIP_URL :: string where
  "CHECKIP_URL = ''https://checkip.amazonaws.com/''"

definition get_my_public_ip :: "env \<Rightarrow> world \<Rightarrow> (raised + string) \<times> world" where
  "get_my_public_ip env w =
     (let w1 = emit (HttpGet CHECKIP_URL 10) w in
      case requests_get env CHECKIP_URL 10 of
        Inr text \<Rightarrow>
          (let ip = py_strip text;
               ip' = (if CHR ''/'' \<notin> set ip then ip @ ''/32'' else ip)
           in (Inr ip', emit (Print [S (''Detected public IP for SSH rule: '' @ ip')]) w1))
      | Inl e \<Rightarrow>
          (Inr ''0.0.0.0/0'',
           emit (Print [S ''Defaulting SSH CIDR to 0.0.0.0/0 (NOT recommended).''])
             (emit (Print [S ''Unable to determine public IP automatically:'', E e]) w1)))"

subsection \<open>get_default_vpc, get_subnets_for_vpc\<close>

definition get_default_vpc :: "env \<Rightarrow> world \<Rightarrow> (raised + string) \<times> world" where
  "get_default_vpc env w =
     (let w1 = emit DescribeVpcs w in
      case ec2_describe_vpcs env of
        Inl e \<Rightarrow> (Inl (Exc e), w1)
      | Inr res \<Rightarrow>
          (case get_list res of
             [] \<Rightarrow> (Inl (SystemExit (ExitMsg
                      ''No default VPC found in region. Script expects a default VPC.'')), w1)
           | v # _ \<Rightarrow> (Inr (VpcId v), w1)))"

definition get_subnets_for_vpc :: "env \<Rightarrow> string \<Rightarrow> world \<Rightarrow> (raised + subnet list) \<times> world" where
  "get_subnets_for_vpc env vpc_id w =
     (let w1 = emit (DescribeSubnets vpc_id) w in
      case ec2_describe_subnets env vpc_id of
        Inl e \<Rightarrow> (Inl (Exc e), w1)
      | Inr res \<Rightarrow>
          (let subnets = get_list res in
           if subnets = [] then (Inl (SystemExit (ExitMsg ''No subnets found in default VPC.'')), w1)
           else (Inr subnets, w1)))"

subsection \<open>create_keypair_if_not_exists\<close>

text \<open>
  The local file system, as far as the script uses it. \<open>os.path.exists\<close> is a lookup.
  \<open>os.open(path, O_WRONLY | O_CREAT, 0o600)\<close> creates an absent file empty, with the
  mode \<open>0o600\<close> less the bits of the umask; an existing file is opened as it is (there is
  no \<open>O_TRUNC\<close>); the files are the user's own, so opening one for writing needs the
  owner's write bit \<open>0o200\<close>, unless the process is the superuser. Writing through the
  fresh descriptor overwrites from offset 0. \<open>os.chmod\<close> sets the mode.
\<close>

definition os_path_exists :: "string \<Rightarrow> world \<Rightarrow> bool" where
  "os_path_exists p w = (files w p \<noteq> None)"

definition os_open_wronly_creat :: "env \<Rightarrow> string \<Rightarrow> nat \<Rightarrow> world \<Rightarrow> (raised + unit) \<times> world" where
  "os_open_wronly_creat env p m w =
     (let w1 = emit (OsOpen p m) w in
      case files w p of
        None \<Rightarrow> (Inr (), w1\<lparr>files := (files w1)(p \<mapsto> \<lparr>content = [], mode = m - (m AND umask env)\<rparr>)\<rparr>)
      | Some f \<Rightarrow>
          if mode f AND 128 = 0 \<and> \<not> is_superuser env
          then (Inl (Exc (PermissionError ''Permission denied'')), w1)
          else (Inr (), w1))"

definition file_write :: "string \<Rightarrow> string \<Rightarrow> world \<Rightarrow> world" where
  "file_write p s w =
     (let w1 = emit (FileWrite p s) w in
      case files w p of
        None \<Rightarrow> w1
      | Some f \<Rightarrow> w1\<lparr>files := (files w1)(p \<mapsto> f\<lparr>content := s @ drop (length s) (content f)\<rparr>)\<rparr>)"

definition os_chmod :: "string \<Rightarrow> nat \<Rightarrow> world \<Rightarrow> (raised + unit) \<times> world" where
  "os_chmod p m w =
     (let w1 = emit (Chmod p m) w in
      case files w p of
        None \<Rightarrow> (Inl (Exc (OtherException ''No such file or directory'')), w1)
      | Some f \<Rightarrow> (Inr (), w1\<lparr>files := (files w1)(p \<mapsto> f\<lparr>mode := m\<rparr>)\<rparr>))"

definition em_dash :: string where
  "em_dash = [char_of (226::nat), char_of (128::nat), char_of (148::nat)]"

text \<open>The part of the function after the lookup: lines 88 to 94.\<close>

definition create_and_save_keypair :: "env \<Rightarrow> string \<Rightarrow> string \<Rightarrow> world \<Rightarrow> (raised + unit) \<times> world" where
  "create_and_save_keypair env key_name key_file_path w =
     (let w1 = emit (CreateKeyPair key_name) (emit (Print [S (''Creating key pair: '' @ key_name)]) w) in
      case ec2_create_key_pair env key_name of
        Inl e \<Rightarrow> (Inl (Exc e), w1)
      | Inr key_material \<Rightarrow>
          bind_r (os_open_wronly_creat env key_file_path 384 w1) (\<lambda>_ w2.
          bind_r (os_chmod key_file_path 256 (file_write key_file_path key_material w2)) (\<lambda>_ w3.
            (Inr (), emit (Print [S (''Saved key to '' @ key_file_path @ '' (chmod 400)'')]) w3))))"

definition create_keypair_if_not_exists :: "env \<Rightarrow> string \<Rightarrow> string \<Rightarrow> world \<Rightarrow> (raised + unit) \<times> world" where
  "create_keypair_if_not_exists env key_name key_file_path w =
     (let w1 = emit (DescribeKeyPairs key_name) w in
      case ec2_describe_key_pairs env key_name of
        Inr existing \<Rightarrow>
          (let w2 = emit (Print [S (''Key pair '' @ key_name @
                      '' already exists in AWS; will not recreate. Attempting to reuse locally if found.'')]) w1;
               w3 = emit (PathExists key_file_path) w2
           in if os_path_exists key_file_path w2
              then (Inr (), emit (Print [S (''Local key '' @ key_file_path @ '' already exists '' @ em_dash
                                    @ '' reusing it.'')]) w3)
              else (Inr (), emit (Print [S (''Local key file '' @ key_file_path @
                      '' not found. Please fetch the private key from AWS console or delete the AWS key and re-run.'')]) w3))
      | Inl (ClientError code msg) \<Rightarrow>
          if code = ''InvalidKeyPair.NotFound''
          then create_and_save_keypair env key_name key_file_path w1
          else (Inl (Exc (ClientError code msg)), w1)
      | Inl e \<Rightarrow> (Inl (Exc e), w1))"

subsection \<open>create_security_group\<close>

definition rule_permission :: "ingress_rule \<Rightarrow> ip_permission" where
  "rule_permission rule =
     \<lparr>perm_IpProtocol = (case IpProtocol rule of None \<Rightarrow> ''tcp'' | Some p \<Rightarrow> p),
      perm_FromPort = FromPort rule,
      perm_ToPort = ToPort rule,
      perm_IpRanges = map (\<lambda>cidr. \<lparr>CidrIp = cidr\<rparr>) (get_list (CidrIps rule))\<rparr>"

definition create_security_group ::
  "env \<Rightarrow> string \<Rightarrow> string \<Rightarrow> string \<Rightarrow> ingress_rule list \<Rightarrow> world \<Rightarrow> (raised + string) \<times> world" where
  "create_security_group env vpc_id group_name description ingress_rules w =
     (let w1 = emit (DescribeSecurityGroups group_name vpc_id) w in
      case ec2_describe_security_groups env group_name vpc_id of
        Inl e \<Rightarrow> (Inl (Exc e), w1)
      | Inr existing \<Rightarrow>
          (case get_list existing of
             sg # _ \<Rightarrow>
               (Inr (GroupId sg),
                emit (Print [S (''Security Group '' @ group_name @ '' already exists: '' @ GroupId sg)]) w1)
           | [] \<Rightarrow>
               (let w2 = emit (CreateSecurityGroup description group_name vpc_id)
                           (emit (Print [S (''Creating security group '' @ group_name @ '' in VPC '' @ vpc_id)]) w1)
                in case ec2_create_security_group env description group_name vpc_id of
                     Inl e \<Rightarrow> (Inl (Exc e), w2)
                   | Inr sg_id \<Rightarrow>
                       (let w3 = emit (Print [S (''Created SG '' @ sg_id @ ''. Now authorizing ingress...'')]) w2;
                            permissions = map rule_permission ingress_rules;
                            w4 = emit (AuthorizeSecurityGroupIngress sg_id permissions) w3
                        in case ec2_authorize_security_group_ingress env sg_id permissions of
                             Inl e \<Rightarrow> (Inl (Exc e), w4)
                           | Inr _ \<Rightarrow> (Inr sg_id, emit (Print [S ''Ingress rules set.'']) w4)))))"

subsection \<open>find_amzn2023_ami\<close>

definition name_patterns :: "string list" where
  "name_patterns = [''*amzn-2023*'', ''*Amazon-Linux-2023*'', ''*amzn2023*'', ''*al2023*'',
                    ''*amazon-linux-2023*'']"

definition AL2_PARAMETER :: string where
  "AL2_PARAMETER = ''/aws/service/ami-amazon-linux-latest/amzn2-ami-hvm-x86_64-gp2''"

text \<open>The loop over the patterns: a pattern whose lookup raises is skipped.\<close>

fun collect_images :: "env \<Rightarrow> string list \<Rightarrow> image list \<Rightarrow> world \<Rightarrow> image list \<times> world" where
  "collect_images env [] images w = (images, w)"
| "collect_images env (pat # pats) images w =
     (let w1 = emit (DescribeImages pat) w in
      case ec2_describe_images env pat of
        Inr resp \<Rightarrow> collect_images env pats (images @ get_list (resp)) w1
      | Inl e \<Rightarrow> collect_images env pats images w1)"

text \<open>The sort key \<open>i.get('CreationDate', '')\<close>; strings compare by code point, lexicographically.\<close>

definition creation_key :: "image \<Rightarrow> string" where
  "creation_key i = (case CreationDate i of None \<Rightarrow> [] | Some d \<Rightarrow> d)"

text \<open>
  \<open>sorted(xs, key=k, reverse=True)\<close>: Python reverses the list, sorts it stably in
  ascending order and reverses the result, so that equal keys keep their original order.
\<close>

definition py_sorted_reverse :: "('a \<Rightarrow> string) \<Rightarrow> 'a list \<Rightarrow> 'a list" where
  "py_sorted_reverse k xs = rev (sort_key k (rev xs))"

definition str_opt :: "string option \<Rightarrow> string" where
  "str_opt v = (case v of None \<Rightarrow> ''None'' | Some s \<Rightarrow> s)"

definition find_amzn2023_ami :: "env \<Rightarrow> world \<Rightarrow> (raised + string) \<times> world" where
  "find_amzn2023_ami env w =
     (let w1 = emit (Print [S ''Searching for latest Amazon Linux 2023 AMI...'']) w
      in case collect_images env name_patterns [] w1 of (images, w2) \<Rightarrow>
         if images = [] then
           (let w3 = emit (GetParameter AL2_PARAMETER)
                       (emit (Print [S ''Could not find Amazon Linux 2023 images by pattern; falling back to Amazon Linux 2 latest AMI.'']) w2)
            in case ssm_get_parameter env AL2_PARAMETER of
                 Inr v \<Rightarrow> (Inr v, w3)
               | Inl e \<Rightarrow> (Inl (SystemExit (ExitMsg
                            (''Failed to find AL2023 or fallback AMI. Error: '' @ str_exc e))), w3))
         else
           (case py_sorted_reverse creation_key images of
              [] \<Rightarrow> (Inl (Exc IndexError), w2)
            | i # _ \<Rightarrow>
                (Inr (ImageId i),
                 emit (Print [S (''Selected AMI '' @ ImageId i @ '' named '' @ [CHR 0x27]
                                 @ str_opt (Name i) @ [CHR 0x27])]) w2)))"

subsection \<open>Load balancing: target group, load balancer, listener, registration\<close>

text \<open>
  The constant arguments of the calls (protocol HTTP, health-check path, matcher, scheme,
  address type, forward action) are not part of the logged event; the arguments that the
  script computes are.
\<close>

definition first_or_IndexError :: "'a list \<Rightarrow> world \<Rightarrow> (raised + 'a) \<times> world" where
  "first_or_IndexError xs w = (case xs of [] \<Rightarrow> (Inl (Exc IndexError), w) | x # _ \<Rightarrow> (Inr x, w))"

definition create_target_group :: "env \<Rightarrow> string \<Rightarrow> string \<Rightarrow> int \<Rightarrow> world \<Rightarrow> (raised + string) \<times> world" where
  "create_target_group env name vpc_id port w =
     (let w1 = emit (CreateTargetGroup (take 32 name) port vpc_id)
                 (emit (Print [S ''Creating target group:'', S name]) w) in
      case elbv2_create_target_group env (take 32 name) port vpc_id of
        Inl e \<Rightarrow> (Inl (Exc e), w1)
      | Inr tgs \<Rightarrow>
          bind_r (first_or_IndexError tgs w1) (\<lambda>tg_arn w2.
            (Inr tg_arn, emit (Print [S ''Target group ARN:'', S tg_arn]) w2)))"

definition create_alb ::
  "env \<Rightarrow> string \<Rightarrow> string list \<Rightarrow> string \<Rightarrow> world \<Rightarrow> (raised + string \<times> string) \<times> world" where
  "create_alb env name subnet_ids sg_id w =
     (let w1 = emit (CreateLoadBalancer (take 32 name) subnet_ids sg_id)
                 (emit (Print [S ''Creating ALB:'', S name]) w) in
      case elbv2_create_load_balancer env (take 32 name) subnet_ids sg_id of
        Inl e \<Rightarrow> (Inl (Exc e), w1)
      | Inr lbs \<Rightarrow>
          bind_r (first_or_IndexError lbs w1) (\<lambda>alb w2.
            (Inr (LoadBalancerArn alb, DNSName alb),
             emit (Print [S ''ALB DNS:'', S (DNSName alb)])
               (emit (Print [S ''ALB ARN:'', S (LoadBalancerArn alb)]) w2))))"

definition create_listener :: "env \<Rightarrow> string \<Rightarrow> string \<Rightarrow> int \<Rightarrow> world \<Rightarrow> (raised + string) \<times> world" where
  "create_listener env alb_arn tg_arn port w =
     (let w1 = emit (CreateListener alb_arn tg_arn port)
                 (emit (Print [S ''Creating listener on port'', I port]) w) in
      case elbv2_create_listener env alb_arn tg_arn port of
        Inl e \<Rightarrow> (Inl (Exc e), w1)
      | Inr ls \<Rightarrow>
          bind_r (first_or_IndexError ls w1) (\<lambda>listener_arn w2.
            (Inr listener_arn, emit (Print [S ''Listener ARN:'', S listener_arn]) w2)))"

definition register_targets :: "env \<Rightarrow> string \<Rightarrow> string \<Rightarrow> int \<Rightarrow> world \<Rightarrow> (raised + unit) \<times> world" where
  "register_targets env tg_arn instance_id port w =
     (let w1 = emit (RegisterTargets tg_arn instance_id port)
                 (emit (Print [S (''Registering instance '' @ instance_id @ '' with target group'')]) w) in
      case elbv2_register_targets env tg_arn instance_id port of
        Inl e \<Rightarrow> (Inl (Exc e), w1)
      | Inr _ \<Rightarrow> (Inr (), w1))"

subsection \<open>wait_for_targets_healthy\<close>

text \<open>
  One probe: the call is logged and counted, and the environment answers it by its number.
\<close>

definition describe_target_health ::
  "env \<Rightarrow> string \<Rightarrow> string \<Rightarrow> world \<Rightarrow> (py_exception + target_health_description list option) \<times> world" where
  "describe_target_health env tg_arn instance_id w =
     (elbv2_describe_target_health env (health_probes w) tg_arn instance_id,
      (emit (DescribeTargetHealth tg_arn instance_id) w)\<lparr>health_probes := Suc (health_probes w)\<rparr>)"

definition TIMEOUT_MSG :: string where
  "TIMEOUT_MSG = ''Timeout waiting for healthy target.''"

text \<open>The \<open>while elapsed < timeout_seconds\<close> loop, with \<open>elapsed\<close> as an argument.\<close>

function wait_loop ::
  "env \<Rightarrow> string \<Rightarrow> string \<Rightarrow> int \<Rightarrow> int \<Rightarrow> world \<Rightarrow> (raised + bool) \<times> world" where
  "wait_loop env tg_arn instance_id timeout_seconds elapsed w =
     (if elapsed < timeout_seconds then
        (case describe_target_health env tg_arn instance_id w of
           (Inl e, w1) \<Rightarrow> (Inl (Exc e), w1)
         | (Inr resp, w1) \<Rightarrow>
             (case get_list resp of
                [] \<Rightarrow> wait_loop env tg_arn instance_id timeout_seconds (elapsed + 6) (emit (Sleep 6) w1)
              | st # _ \<Rightarrow>
                  (let w2 = emit (Print [S ''Target state:'', S (State st)]) w1 in
                   if State st = ''healthy'' then (Inr True, w2)
                   else wait_loop env tg_arn instance_id timeout_seconds (elapsed + 6) (emit (Sleep 6) w2))))
      else (Inr False, emit (Print [S TIMEOUT_MSG]) w))"
  by pat_completeness auto
termination
  by (relation "measure (\<lambda>(env, tg_arn, instance_id, timeout_seconds, elapsed, w). nat (timeout_seconds - elapsed))") auto

definition wait_for_targets_healthy ::
  "env \<Rightarrow> string \<Rightarrow> string \<Rightarrow> int \<Rightarrow> world \<Rightarrow> (raised + bool) \<times> world" where
  "wait_for_targets_healthy env tg_arn instance_id timeout_seconds w =
     wait_loop env tg_arn instance_id timeout_seconds 0
       (emit (Print [S ''Waiting for target to become healthy (may take a minute)...'']) w)"

subsection \<open>main\<close>

definition ec2_ingress_rules :: "string \<Rightarrow> ingress_rule list" where
  "ec2_ingress_rules my_ip_cidr =
     [\<lparr>IpProtocol = None, FromPort = SSH_PORT, ToPort = SSH_PORT, CidrIps = Some [my_ip_cidr]\<rparr>,
      \<lparr>IpProtocol = None, FromPort = HTTP_PORT, ToPort = HTTP_PORT, CidrIps = Some [''0.0.0.0/0'']\<rparr>]"

definition alb_ingress_rules :: "ingress_rule list" where
  "alb_ingress_rules =
     [\<lparr>IpProtocol = None, FromPort = HTTP_PORT, ToPort = HTTP_PORT, CidrIps = Some [''0.0.0.0/0'']\<rparr>]"

text \<open>
  The body of the \<open>try\<close> statement, lines 350 to 369. The user-data script is a constant
  string handed over as it is and is not part of the logged request. (The function
  \<open>create_instance\<close> of lines 151 to 172 is never called: \<open>main\<close> launches the instance
  itself.)
\<close>

definition launch_instance ::
  "env \<Rightarrow> string \<Rightarrow> string \<Rightarrow> string \<Rightarrow> world \<Rightarrow> (py_exception + ec2_instance) \<times> world" where
  "launch_instance env ami_id ec2_sg_id chosen_subnet w =
     (let req = \<lparr>req_ImageId = ami_id, req_InstanceType = INSTANCE_TYPE, req_KeyName = KEY_NAME,
                 req_SecurityGroupIds = [ec2_sg_id], req_SubnetId = chosen_subnet,
                 req_NameTag = INSTANCE_NAME\<rparr>;
          w1 = emit (CreateInstances req) w
      in case ec2_create_instances env req of
           Inl e \<Rightarrow> (Inl e, w1)
         | Inr instances \<Rightarrow>
             (case instances of
                [] \<Rightarrow> (Inl IndexError, w1)
              | inst # _ \<Rightarrow>
                  (let w2 = emit (WaitUntilRunning (inst_id inst))
                              (emit (Print [S ''Launched instance id:'', S (inst_id inst)]) w1)
                   in case inst_wait_until_running env (inst_id inst) of
                        Inl e \<Rightarrow> (Inl e, w2)
                      | Inr _ \<Rightarrow>
                          (let w3 = emit (Reload (inst_id inst)) w2
                           in case inst_reload env (inst_id inst) of
                                Inl e \<Rightarrow> (Inl e, w3)
                              | Inr (pub, priv) \<Rightarrow>
                                  (Inr (inst\<lparr>public_ip_address := pub, private_ip_address := priv\<rparr>),
                                   emit (Print [S ''Instance running. Public IP:'', Opt pub,
                                                S ''Private IP:'', Opt priv]) w3)))))"

definition SUCCESS_MSG :: string where
  "SUCCESS_MSG = CHR 0x0A # ''=== SUCCESS ===''"

definition ADVISORY_MSG :: string where
  "ADVISORY_MSG = ''Target didn'' @ [CHR 0x27] @ ''t become healthy yet '' @ em_dash
     @ '' it may still work. Check health in console if necessary.''"

text \<open>The prints that end \<open>main\<close>, lines 388 to 399.\<close>

definition report ::
  "bool \<Rightarrow> string \<Rightarrow> string \<Rightarrow> ec2_instance \<Rightarrow> string \<Rightarrow> string \<Rightarrow> world \<Rightarrow> world" where
  "report healthy alb_dns tg_arn inst ec2_sg_id alb_sg_id w =
     (let w1 = (if \<not> healthy then emit (Print [S ADVISORY_MSG]) w else w) in
      emit (Print [S ''Remember to clean up resources when done (terminate instance, delete ALB, TG, SGs, keypair) to avoid charges.''])
     (emit (Print [S ''If you need to SSH: ssh -i'', S KEY_FILE,
                   S (''ec2-user@'' @ str_opt (public_ip_address inst))])
     (emit (Print [S ''Key pair name:'', S KEY_NAME, S ''private key saved to:'', S KEY_FILE])
     (emit (Print [S ''ALB security group:'', S alb_sg_id])
     (emit (Print [S ''EC2 security group:'', S ec2_sg_id])
     (emit (Print [S ''EC2 instance ID:'', S (inst_id inst)])
     (emit (Print [S ''ALB will forward to target group:'', S tg_arn])
     (emit (Print [S (''ALB DNS Name / Endpoint: http://'' @ alb_dns)])
     (emit (Print [S SUCCESS_MSG]) w1)))))))))"

text \<open>Lines 374 to 399: what follows the \<open>try\<close> statement.\<close>

definition main_after_launch ::
  "env \<Rightarrow> string \<Rightarrow> string list \<Rightarrow> string \<Rightarrow> string \<Rightarrow> ec2_instance \<Rightarrow> world \<Rightarrow> (raised + unit) \<times> world" where
  "main_after_launch env vpc_id subnet_ids ec2_sg_id alb_sg_id inst w =
     bind_r (create_target_group env TG_NAME vpc_id HTTP_PORT w) (\<lambda>tg_arn w.
     bind_r (create_alb env ALB_NAME subnet_ids alb_sg_id w) (\<lambda>(alb_arn, alb_dns) w.
     bind_r (create_listener env alb_arn tg_arn HTTP_PORT w) (\<lambda>listener_arn w.
     bind_r (register_targets env tg_arn (inst_id inst) HTTP_PORT w) (\<lambda>_ w.
     bind_r (wait_for_targets_healthy env tg_arn (inst_id inst) 240 w) (\<lambda>healthy w.
       (Inr (), report healthy alb_dns tg_arn inst ec2_sg_id alb_sg_id w))))))"

text \<open>
  \<open>main\<close>. An exception of the \<open>try\<close> body is printed and turned into \<open>sys.exit(1)\<close>;
  everything else that raises leaves \<open>main\<close> as it is.
\<close>

definition main :: "env \<Rightarrow> world \<Rightarrow> (raised + unit) \<times> world" where
  "main env w =
     bind_r (get_my_public_ip env w) (\<lambda>my_ip_cidr w.
     bind_r (get_default_vpc env w) (\<lambda>vpc_id w.
     bind_r (get_subnets_for_vpc env vpc_id (emit (Print [S ''Default VPC:'', S vpc_id]) w)) (\<lambda>subnets w.
     let subnet_ids = map SubnetId subnets in
     bind_r (create_keypair_if_not_exists env KEY_NAME KEY_FILE
               (emit (Print [S ''Found subnets in default VPC:'', L subnet_ids]) w)) (\<lambda>_ w.
     bind_r (create_security_group env vpc_id EC2_SG_NAME
               (''Security group for EC2 ('' @ TEMPLATE_NAME @ '')'')
               (ec2_ingress_rules my_ip_cidr) w) (\<lambda>ec2_sg_id w.
     bind_r (create_security_group env vpc_id ALB_SG_NAME
               (''Security group for ALB ('' @ TEMPLATE_NAME @ '')'')
               alb_ingress_rules (emit (Print [S ''EC2 SG ID:'', S ec2_sg_id]) w)) (\<lambda>alb_sg_id w.
     bind_r (find_amzn2023_ami env (emit (Print [S ''ALB SG ID:'', S alb_sg_id]) w)) (\<lambda>ami_id w.
     bind_r (first_or_IndexError subnet_ids (emit (Print [S ''Using AMI:'', S ami_id]) w)) (\<lambda>chosen_subnet w.
       case launch_instance env ami_id ec2_sg_id chosen_subnet
              (emit (Print [S ''Launching EC2 in subnet:'', S chosen_subnet]) w) of
         (Inl e, w) \<Rightarrow> (Inl (SystemExit (ExitCode 1)), emit (Print [S ''Failed to create instance:'', E e]) w)
       | (Inr inst, w) \<Rightarrow> main_after_launch env vpc_id subnet_ids ec2_sg_id alb_sg_id inst w))))))))"

text \<open>
  The exit status of the interpreter: 0 when \<open>main\<close> returns, the argument of
  \<open>sys.exit\<close> when it is an integer, and 1 when \<open>SystemExit\<close> carries a message or an
  exception is not caught.
\<close>

definition exit_status :: "(raised + unit) \<Rightarrow> int" where
  "exit_status r =
     (case r of
        Inr _ \<Rightarrow> 0
      | Inl (SystemExit (ExitCode n)) \<Rightarrow> n
      | Inl (SystemExit (ExitMsg _)) \<Rightarrow> 1
      | Inl (Exc _) \<Rightarrow> 1)"

subsection \<open>Notions used to state the properties\<close>

text \<open>
  The images that one name pattern contributes to the pool (none when its lookup raises),
  and the pool of all patterns, in the order of the loop.
\<close>

definition matching_images :: "env \<Rightarrow> string \<Rightarrow> image list" where
  "matching_images env pat =
     (case ec2_describe_images env pat of Inr resp \<Rightarrow> get_list resp | Inl e \<Rightarrow> [])"

definition pooled_images :: "env \<Rightarrow> image list" where
  "pooled_images env = concat (map (matching_images env) name_patterns)"

fun is_GetParameter :: "event \<Rightarrow> bool" where
  "is_GetParameter (GetParameter n) = True"
| "is_GetParameter _ = False"

text \<open>
  For the polling loop: the probes and the sleeps of a log; what the probe with a given
  number reports (healthy: it returns and its first description has state \<open>healthy\<close>;
  unhealthy: it returns and has no description or another state); and the number of
  rounds that a timeout allows, \<open>timeout_seconds / 6\<close> rounded up.
\<close>

fun is_probe :: "event \<Rightarrow> bool" where
  "is_probe (DescribeTargetHealth tg i) = True"
| "is_probe _ = False"

fun is_sleep :: "event \<Rightarrow> bool" where
  "is_sleep (Sleep n) = True"
| "is_sleep _ = False"

definition probe_reports_healthy :: "env \<Rightarrow> string \<Rightarrow> string \<Rightarrow> nat \<Rightarrow> bool" where
  "probe_reports_healthy env tg_arn instance_id k =
     (case elbv2_describe_target_health env k tg_arn instance_id of
        Inl e \<Rightarrow> False
      | Inr resp \<Rightarrow> (case get_list resp of [] \<Rightarrow> False | st # _ \<Rightarrow> State st = ''healthy''))"

definition probe_reports_unhealthy :: "env \<Rightarrow> string \<Rightarrow> string \<Rightarrow> nat \<Rightarrow> bool" where
  "probe_reports_unhealthy env tg_arn instance_id k =
     (case elbv2_describe_target_health env k tg_arn instance_id of
        Inl e \<Rightarrow> False
      | Inr resp \<Rightarrow> (case get_list resp of [] \<Rightarrow> True | st # _ \<Rightarrow> State st \<noteq> ''healthy''))"

definition max_polls :: "int \<Rightarrow> nat" where
  "max_polls timeout_seconds = nat ((timeout_seconds + 5) div 6)"

text \<open>
  For \<open>main\<close>: the events of a log that the properties of a whole run speak about (the
  ingress authorizations, the launch of the instance and the wait for it, the lookup in
  the parameter store, and the three prints that end a run), and the sublist of these
  events in a world's log.
\<close>

fun observed :: "event \<Rightarrow> bool" where
  "observed (AuthorizeSecurityGroupIngress g ps) = True"
| "observed (CreateInstances req) = True"
| "observed (WaitUntilRunning i) = True"
| "observed (GetParameter n) = True"
| "observed (Print vs) = (vs = [S SUCCESS_MSG] \<or> vs = [S TIMEOUT_MSG] \<or> vs = [S ADVISORY_MSG])"
| "observed _ = False"

definition observations :: "world \<Rightarrow> event list" where
  "observations w = filter observed (trace w)"

subsection \<open>Concrete inputs\<close>

text \<open>
  An account in which nothing of the script's exists yet: the default VPC has two subnets,
  one name pattern matches two images, every call succeeds, and the target reports
  \<open>initial\<close> twice before it is healthy. The world starts with an empty log and no files.
\<close>

definition empty_world :: world where
  "empty_world = \<lparr>trace = [], files = (\<lambda>_. None), health_probes = 0\<rparr>"

definition fresh_account :: env where
  "fresh_account = \<lparr>
     requests_get = (\<lambda>url t. Inr (''203.0.113.7'' @ [CHR 0x0A])),
     ec2_describe_vpcs = Inr (Some [\<lparr>VpcId = ''vpc-1''\<rparr>]),
     ec2_describe_subnets = (\<lambda>v. Inr (Some [\<lparr>SubnetId = ''subnet-a''\<rparr>, \<lparr>SubnetId = ''subnet-b''\<rparr>])),
     ec2_describe_key_pairs =
       (\<lambda>k. Inl (ClientError ''InvalidKeyPair.NotFound'' ''The key pair does not exist'')),
     ec2_create_key_pair = (\<lambda>k. Inr ''PRIVATE KEY''),
     ec2_describe_security_groups = (\<lambda>n v. Inr (Some [])),
     ec2_create_security_group = (\<lambda>d n v. Inr (''sg-'' @ n)),
     ec2_authorize_security_group_ingress = (\<lambda>g ps. Inr ()),
     ec2_describe_images = (\<lambda>pat. if pat = ''*al2023*''
         then Inr (Some [\<lparr>ImageId = ''ami-old'', CreationDate = Some ''2023-03-01T00:00:00.000Z'',
                           Name = Some ''al2023-ami-old''\<rparr>,
                         \<lparr>ImageId = ''ami-new'', CreationDate = Some ''2024-05-01T00:00:00.000Z'',
                           Name = Some ''al2023-ami-new''\<rparr>])
         else Inr None),
     ssm_get_parameter = (\<lambda>n. Inr ''ami-al2''),
     ec2_create_instances =
       (\<lambda>r. Inr [\<lparr>inst_id = ''i-1'', public_ip_address = None, private_ip_address = None\<rparr>]),
     inst_wait_until_running = (\<lambda>i. Inr ()),
     inst_reload = (\<lambda>i. Inr (Some ''198.51.100.9'', Some ''172.31.0.9'')),
     elbv2_create_target_group = (\<lambda>n p v. Inr [''arn:tg'']),
     elbv2_create_load_balancer =
       (\<lambda>n s g. Inr [\<lparr>LoadBalancerArn = ''arn:alb'', DNSName = ''alb.example.com''\<rparr>]),
     elbv2_create_listener = (\<lambda>a t p. Inr [''arn:listener'']),
     elbv2_register_targets = (\<lambda>t i p. Inr ()),
     elbv2_describe_target_health =
       (\<lambda>k t i. Inr (Some [\<lparr>State = (if k < 2 then ''initial'' else ''healthy'')\<rparr>])),
     umask = 18,
     is_superuser = False\<rparr>"

text \<open>The same account once the key pair and the security groups exist.\<close>

definition provisioned_account :: env where
  "provisioned_account = fresh_account\<lparr>
     ec2_describe_key_pairs := (\<lambda>k. Inr ()),
     ec2_describe_security_groups := (\<lambda>n v. Inr (Some [\<lparr>GroupId = ''sg-0a1b''\<rparr>]))\<rparr>"

text \<open>A world in which the private-key file of an earlier run is present, read-only.\<close>

definition world_with_key_file :: world where
  "world_with_key_file =
     empty_world\<lparr>files := (\<lambda>_. None)(KEY_FILE \<mapsto> \<lparr>content = ''OLD KEY'', mode = 256\<rparr>)\<rparr>"

text \<open>
  The world that the key-pair step of a first run leaves in the fresh account, and that
  account after its key pair was deleted again: the lookup still finds no key pair, and
  the next create call returns a new key.
\<close>

definition world_after_first_run :: world where
  "world_after_first_run =
     snd (create_keypair_if_not_exists fresh_account KEY_NAME KEY_FILE empty_world)"

definition account_after_key_deleted :: env where
  "account_after_key_deleted = fresh_account\<lparr>
     ec2_create_key_pair := (\<lambda>k. Inr ''NEW PRIVATE KEY'')\<rparr>"

text \<open>
  Accounts for the image search: no pattern matches (one lookup raises, the others
  return nothing), the same with a failing parameter store, a pool of two images of
  which the first has no \<open>CreationDate\<close> and the second an empty one, and a pool of two
  images of which the first has no \<open>CreationDate\<close> and the second has one.
\<close>

definition account_without_images :: env where
  "account_without_images = fresh_account\<lparr>
     ec2_describe_images :=
       (\<lambda>pat. if pat = ''*al2023*'' then Inl (OtherException ''timed out'') else Inr (Some []))\<rparr>"

definition account_without_fallback :: env where
  "account_without_fallback = account_without_images\<lparr>
     ssm_get_parameter := (\<lambda>n. Inl (ClientError ''ParameterNotFound'' ''parameter not found''))\<rparr>"

definition image_without_date :: image where
  "image_without_date = \<lparr>ImageId = ''ami-undated'', CreationDate = None, Name = None\<rparr>"

definition image_with_empty_date :: image where
  "image_with_empty_date = \<lparr>ImageId = ''ami-empty-date'', CreationDate = Some [], Name = None\<rparr>"

definition image_with_date :: image where
  "image_with_date =
     \<lparr>ImageId = ''ami-dated'', CreationDate = Some ''2024-05-01T00:00:00.000Z'', Name = None\<rparr>"

definition account_with_dated_and_undated_image :: env where
  "account_with_dated_and_undated_image = fresh_account\<lparr>
     ec2_describe_images := (\<lambda>pat. if pat = ''*amzn-2023*''
        then Inr (Some [image_without_date, image_with_date]) else Inr None)\<rparr>"

definition account_with_undated_image :: env where
  "account_with_undated_image = fresh_account\<lparr>
     ec2_describe_images := (\<lambda>pat. if pat = ''*amzn-2023*''
        then Inr (Some [image_without_date, image_with_empty_date]) else Inr None)\<rparr>"

text \<open>An account whose target never becomes healthy.\<close>

definition never_healthy_account :: env where
  "never_healthy_account = fresh_account\<lparr>
     elbv2_describe_target_health := (\<lambda>k t i. Inr (Some [\<lparr>State = ''unhealthy''\<rparr>]))\<rparr>"

text \<open>
  Accounts for whole runs: the IP-echo service answers with a CIDR block, or with an
  address between a space and a no-break space (U+00A0) with a newline, or cannot be
  reached (in the account whose target never becomes healthy); the launch of the instance is refused, or the wait for it fails; there is no
  default VPC, or it has no subnets. \<open>launch_request\<close> is the request that \<open>main\<close> sends in
  the fresh account.
\<close>

definition account_echoing_cidr :: env where
  "account_echoing_cidr = fresh_account\<lparr>
     requests_get := (\<lambda>url t. Inr (''198.51.100.7/32'' @ [CHR 0x0A]))\<rparr>"

definition account_echoing_padded_ip :: env where
  "account_echoing_padded_ip = fresh_account\<lparr>
     requests_get := (\<lambda>url t. Inr ('' 203.0.113.7'' @ [CHR 0xC2, CHR 0xA0, CHR 0x0A]))\<rparr>"

definition offline_account :: env where
  "offline_account = never_healthy_account\<lparr>
     requests_get := (\<lambda>url t. Inl (OtherException ''Read timed out.''))\<rparr>"

definition account_without_capacity :: env where
  "account_without_capacity = fresh_account\<lparr>
     ec2_create_instances := (\<lambda>r. Inl (ClientError ''InsufficientInstanceCapacity'' ''no capacity''))\<rparr>"

definition account_with_failing_waiter :: env where
  "account_with_failing_waiter = fresh_account\<lparr>
     inst_wait_until_running := (\<lambda>i. Inl (OtherException ''Waiter InstanceRunning failed''))\<rparr>"

definition account_without_vpc :: env where
  "account_without_vpc = fresh_account\<lparr>ec2_describe_vpcs := Inr (Some [])\<rparr>"

definition account_without_subnets :: env where
  "account_without_subnets = fresh_account\<lparr>ec2_describe_subnets := (\<lambda>v. Inr None)\<rparr>"

definition launch_request :: instance_request where
  "launch_request = \<lparr>req_ImageId = ''ami-new'', req_InstanceType = INSTANCE_TYPE, req_KeyName = KEY_NAME,
      req_SecurityGroupIds = [''sg-MosoInterior-sg-ec2''], req_SubnetId = ''subnet-a'',
      req_NameTag = INSTANCE_NAME\<rparr>"

section \<open>Properties\<close>

subsection \<open>Security groups\<close>

text \<open>
  Claim C1. When the lookup by name and VPC returns a group, \<open>create_security_group\<close>
  returns that group's id, and all it does is the lookup and one print: no
  create call and no authorize call. When the lookup returns no group and the two calls
  succeed, it creates the group with the given description, authorizes all the given
  rules in one call, and returns the new id.
\<close>

theorem create_security_group_reuse_or_create:
  "(ec2_describe_security_groups env group_name vpc_id = Inr (Some (sg # rest)) \<longrightarrow>
      fst (create_security_group env vpc_id group_name description ingress_rules w) = Inr (GroupId sg)
      \<and> trace (snd (create_security_group env vpc_id group_name description ingress_rules w)) =
          trace w @ [DescribeSecurityGroups group_name vpc_id,
                     Print [S (''Security Group '' @ group_name @ '' already exists: '' @ GroupId sg)]])
   \<and> (ec2_describe_security_groups env group_name vpc_id \<in> {Inr None, Inr (Some [])} \<and>
      ec2_create_security_group env description group_name vpc_id = Inr sg_id \<and>
      ec2_authorize_security_group_ingress env sg_id (map rule_permission ingress_rules) = Inr () \<longrightarrow>
      fst (create_security_group env vpc_id group_name description ingress_rules w) = Inr sg_id
      \<and> trace (snd (create_security_group env vpc_id group_name description ingress_rules w)) =
          trace w @ [DescribeSecurityGroups group_name vpc_id,
                     Print [S (''Creating security group '' @ group_name @ '' in VPC '' @ vpc_id)],
                     CreateSecurityGroup description group_name vpc_id,
                     Print [S (''Created SG '' @ sg_id @ ''. Now authorizing ingress...'')],
                     AuthorizeSecurityGroupIngress sg_id (map rule_permission ingress_rules),
                     Print [S ''Ingress rules set.'']])"
  by (auto simp: create_security_group_def get_list_def emit_def Let_def)

theorem create_security_group_reuse_or_create_witness:
  "fst (create_security_group provisioned_account ''vpc-1'' ''web'' ''web servers''
          (ec2_ingress_rules ''203.0.113.7/32'') empty_world) = Inr ''sg-0a1b''
   \<and> trace (snd (create_security_group provisioned_account ''vpc-1'' ''web'' ''web servers''
          (ec2_ingress_rules ''203.0.113.7/32'') empty_world)) =
       [DescribeSecurityGroups ''web'' ''vpc-1'',
        Print [S ''Security Group web already exists: sg-0a1b'']]
   \<and> fst (create_security_group fresh_account ''vpc-1'' ''web'' ''web servers''
          (ec2_ingress_rules ''203.0.113.7/32'') empty_world) = Inr ''sg-web''
   \<and> trace (snd (create_security_group fresh_account ''vpc-1'' ''web'' ''web servers''
          (ec2_ingress_rules ''203.0.113.7/32'') empty_world)) =
       [DescribeSecurityGroups ''web'' ''vpc-1'',
        Print [S ''Creating security group web in VPC vpc-1''],
        CreateSecurityGroup ''web servers'' ''web'' ''vpc-1'',
        Print [S ''Created SG sg-web. Now authorizing ingress...''],
        AuthorizeSecurityGroupIngress ''sg-web''
          [\<lparr>perm_IpProtocol = ''tcp'', perm_FromPort = 22, perm_ToPort = 22,
            perm_IpRanges = [\<lparr>CidrIp = ''203.0.113.7/32''\<rparr>]\<rparr>,
           \<lparr>perm_IpProtocol = ''tcp'', perm_FromPort = 80, perm_ToPort = 80,
            perm_IpRanges = [\<lparr>CidrIp = ''0.0.0.0/0''\<rparr>]\<rparr>],
        Print [S ''Ingress rules set.'']]"
  using create_security_group_reuse_or_create
          [of provisioned_account "''web''" "''vpc-1''" "\<lparr>GroupId = ''sg-0a1b''\<rparr>" "[]"
              "''web servers''" "ec2_ingress_rules ''203.0.113.7/32''" empty_world]
        create_security_group_reuse_or_create
          [of fresh_account "''web''" "''vpc-1''" _ _
              "''web servers''" "ec2_ingress_rules ''203.0.113.7/32''" empty_world "''sg-web''"]
  by (simp add: provisioned_account_def fresh_account_def empty_world_def ec2_ingress_rules_def
      rule_permission_def get_list_def SSH_PORT_def HTTP_PORT_def)

subsection \<open>Key pair\<close>

text \<open>
  Claim C2. When the key pair exists at the provider, \<open>create_keypair_if_not_exists\<close>
  returns normally, leaves every local file as it was and makes no call but the lookup:
  the log gains the lookup, a print, the test for the local file and one more print,
  which says that the local key is reused when the file exists and is the warning that
  the local key file was not found when it does not. There is no \<open>CreateKeyPair\<close> event.
\<close>

theorem create_keypair_reuses_existing:
  "ec2_describe_key_pairs env key_name = Inr () \<Longrightarrow>
     fst (create_keypair_if_not_exists env key_name key_file_path w) = Inr ()
   \<and> files (snd (create_keypair_if_not_exists env key_name key_file_path w)) = files w
   \<and> trace (snd (create_keypair_if_not_exists env key_name key_file_path w)) =
       trace w @
       [DescribeKeyPairs key_name,
        Print [S (''Key pair '' @ key_name @
                  '' already exists in AWS; will not recreate. Attempting to reuse locally if found.'')],
        PathExists key_file_path,
        Print [S (if files w key_file_path \<noteq> None
                  then ''Local key '' @ key_file_path @ '' already exists '' @ em_dash @ '' reusing it.''
                  else ''Local key file '' @ key_file_path @
                       '' not found. Please fetch the private key from AWS console or delete the AWS key and re-run.'')]]"
  by (simp add: create_keypair_if_not_exists_def os_path_exists_def emit_def Let_def)

theorem create_keypair_reuses_existing_witness:
  "ec2_describe_key_pairs provisioned_account KEY_NAME = Inr ()
   \<and> files (snd (create_keypair_if_not_exists provisioned_account KEY_NAME KEY_FILE world_with_key_file))
       = files world_with_key_file
   \<and> trace (snd (create_keypair_if_not_exists provisioned_account KEY_NAME KEY_FILE world_with_key_file)) =
       [DescribeKeyPairs KEY_NAME,
        Print [S (''Key pair '' @ KEY_NAME @
                  '' already exists in AWS; will not recreate. Attempting to reuse locally if found.'')],
        PathExists KEY_FILE,
        Print [S (''Local key '' @ KEY_FILE @ '' already exists '' @ em_dash @ '' reusing it.'')]]
   \<and> trace (snd (create_keypair_if_not_exists provisioned_account KEY_NAME KEY_FILE empty_world)) =
       [DescribeKeyPairs KEY_NAME,
        Print [S (''Key pair '' @ KEY_NAME @
                  '' already exists in AWS; will not recreate. Attempting to reuse locally if found.'')],
        PathExists KEY_FILE,
        Print [S (''Local key file '' @ KEY_FILE @
                  '' not found. Please fetch the private key from AWS console or delete the AWS key and re-run.'')]]"
  using create_keypair_reuses_existing [of provisioned_account KEY_NAME KEY_FILE world_with_key_file]
        create_keypair_reuses_existing [of provisioned_account KEY_NAME KEY_FILE empty_world]
  by (simp add: provisioned_account_def fresh_account_def world_with_key_file_def empty_world_def)

text \<open>
  When the lookup says that the key pair does not exist, the create call succeeds and the
  local file is absent or can be opened for writing, the function creates the key pair,
  opens the file with \<open>O_WRONLY | O_CREAT\<close> and mode \<open>0o600\<close> (384), writes the key
  material, sets the mode to \<open>0o400\<close> (256) and returns: these are the events of the log,
  in this order, and in the end the file holds the key material (over what an existing
  file held before) with mode \<open>0o400\<close>. No other file changes.
\<close>

lemma create_keypair_saves_new_key:
  assumes "ec2_describe_key_pairs env key_name = Inl (ClientError ''InvalidKeyPair.NotFound'' msg)"
    and "ec2_create_key_pair env key_name = Inr key_material"
    and "files w key_file_path = None
         \<or> (\<exists>f. files w key_file_path = Some f \<and> (mode f AND 128 \<noteq> 0 \<or> is_superuser env))"
  shows "fst (create_keypair_if_not_exists env key_name key_file_path w) = Inr ()
   \<and> trace (snd (create_keypair_if_not_exists env key_name key_file_path w)) =
       trace w @
       [DescribeKeyPairs key_name,
        Print [S (''Creating key pair: '' @ key_name)],
        CreateKeyPair key_name,
        OsOpen key_file_path 384,
        FileWrite key_file_path key_material,
        Chmod key_file_path 256,
        Print [S (''Saved key to '' @ key_file_path @ '' (chmod 400)'')]]
   \<and> files (snd (create_keypair_if_not_exists env key_name key_file_path w)) =
       (files w)(key_file_path \<mapsto>
          \<lparr>content = key_material @ drop (length key_material)
                        (case files w key_file_path of None \<Rightarrow> [] | Some f \<Rightarrow> content f),
           mode = 256\<rparr>)
   \<and> (files w key_file_path = None \<longrightarrow>
        files (snd (os_open_wronly_creat env key_file_path 384 w)) key_file_path =
          Some \<lparr>content = [], mode = 384 - (384 AND umask env)\<rparr>)"
  using assms
  by (auto simp: create_keypair_if_not_exists_def create_and_save_keypair_def os_open_wronly_creat_def
      file_write_def os_chmod_def bind_r_def emit_def Let_def)

lemma create_keypair_first_run:
  "fst (create_keypair_if_not_exists fresh_account KEY_NAME KEY_FILE empty_world) = Inr ()
   \<and> trace world_after_first_run =
       [DescribeKeyPairs KEY_NAME,
        Print [S (''Creating key pair: '' @ KEY_NAME)],
        CreateKeyPair KEY_NAME,
        OsOpen KEY_FILE 384,
        FileWrite KEY_FILE ''PRIVATE KEY'',
        Chmod KEY_FILE 256,
        Print [S (''Saved key to '' @ KEY_FILE @ '' (chmod 400)'')]]
   \<and> files world_after_first_run = (\<lambda>_. None)(KEY_FILE \<mapsto> \<lparr>content = ''PRIVATE KEY'', mode = 256\<rparr>)"
  using create_keypair_saves_new_key
          [of fresh_account KEY_NAME "''The key pair does not exist''" "''PRIVATE KEY''" empty_world KEY_FILE]
  by (simp add: world_after_first_run_def fresh_account_def empty_world_def)

text \<open>
  Claim C8 says that in every run in which the remote key pair does not exist,
  \<open>create_keypair_if_not_exists\<close> creates it, writes the returned key material to the
  local file and restricts the file to mode \<open>0o400\<close> before it returns. The code does not
  do so in a second run over the file of its own first run: that file has mode \<open>0o400\<close>,
  so after the key pair was deleted at the provider the function creates a new key pair
  and then \<open>os.open\<close> raises \<open>PermissionError\<close> (the process not being the superuser).
  Nothing is written, there is no \<open>chmod\<close>, the file keeps the old key, and the new key
  material is lost.
\<close>

theorem create_keypair_rerun_loses_key:
  "files world_after_first_run KEY_FILE = Some \<lparr>content = ''PRIVATE KEY'', mode = 256\<rparr>
   \<and> ec2_describe_key_pairs account_after_key_deleted KEY_NAME =
       Inl (ClientError ''InvalidKeyPair.NotFound'' ''The key pair does not exist'')
   \<and> ec2_create_key_pair account_after_key_deleted KEY_NAME = Inr ''NEW PRIVATE KEY''
   \<and> is_superuser account_after_key_deleted = False
   \<and> fst (create_keypair_if_not_exists account_after_key_deleted KEY_NAME KEY_FILE world_after_first_run) =
       Inl (Exc (PermissionError ''Permission denied''))
   \<and> trace (snd (create_keypair_if_not_exists account_after_key_deleted KEY_NAME KEY_FILE
                    world_after_first_run)) =
       trace world_after_first_run @
       [DescribeKeyPairs KEY_NAME,
        Print [S (''Creating key pair: '' @ KEY_NAME)],
        CreateKeyPair KEY_NAME,
        OsOpen KEY_FILE 384]
   \<and> files (snd (create_keypair_if_not_exists account_after_key_deleted KEY_NAME KEY_FILE
                    world_after_first_run)) KEY_FILE =
       Some \<lparr>content = ''PRIVATE KEY'', mode = 256\<rparr>"
proof -
  have f: "files world_after_first_run = (\<lambda>_. None)(KEY_FILE \<mapsto> \<lparr>content = ''PRIVATE KEY'', mode = 256\<rparr>)"
    using create_keypair_first_run by simp
  have m: "(256::nat) AND 128 = 0" by simp
  show ?thesis
    by (simp add: f m create_keypair_if_not_exists_def create_and_save_keypair_def
        os_open_wronly_creat_def bind_r_def emit_def Let_def
        account_after_key_deleted_def fresh_account_def)
qed

subsection \<open>Image search\<close>

text \<open>The loop over the patterns pools what each pattern matches and logs one lookup per pattern.\<close>

lemma collect_images_result:
  "collect_images env pats acc w =
     (acc @ concat (map (matching_images env) pats), w\<lparr>trace := trace w @ map DescribeImages pats\<rparr>)"
proof (induction pats arbitrary: acc w)
  case Nil
  show ?case by simp
next
  case (Cons pat pats)
  show ?case
    by (cases "ec2_describe_images env pat") (simp_all add: Cons.IH matching_images_def emit_def)
qed

lemma sorted_le_last:
  fixes zs :: "'b::linorder list"
  shows "sorted zs \<Longrightarrow> z \<in> set zs \<Longrightarrow> z \<le> last zs"
  by (induction zs) (auto split: if_splits)

lemma last_filter_keeps:
  "xs \<noteq> [] \<Longrightarrow> P (last xs) \<Longrightarrow> last (filter P xs) = last xs"
  by (cases xs rule: rev_cases) simp_all

lemma py_sorted_reverse_head:
  assumes "xs \<noteq> []"
  shows "\<exists>rest. py_sorted_reverse k xs = hd (filter (\<lambda>j. \<forall>j'\<in>set xs. k j' \<le> k j) xs) # rest"
    and "hd (py_sorted_reverse k xs) \<in> set xs"
    and "\<forall>j\<in>set xs. k j \<le> k (hd (py_sorted_reverse k xs))"
proof -
  define ys where "ys = sort_key k (rev xs)"
  have "length ys = length xs" by (simp add: ys_def)
  with assms have ne: "ys \<noteq> []" by auto
  have srt: "sorted (map k ys)" by (simp add: ys_def)
  have st: "set ys = set xs" by (simp add: ys_def)
  have hd_eq: "hd (py_sorted_reverse k xs) = last ys"
    using ne by (simp add: py_sorted_reverse_def ys_def[symmetric] hd_rev)
  have mx: "k j \<le> k (last ys)" if "j \<in> set xs" for j
  proof -
    from that have "k j \<in> set (map k ys)" using st by simp
    with srt have "k j \<le> last (map k ys)" by (rule sorted_le_last)
    then show ?thesis using ne by (simp add: last_map)
  qed
  show "hd (py_sorted_reverse k xs) \<in> set xs" using hd_eq ne st last_in_set by metis
  show "\<forall>j\<in>set xs. k j \<le> k (hd (py_sorted_reverse k xs))" using mx hd_eq by simp
  let ?P = "\<lambda>j. k j = k (last ys)"
  have lin: "last ys \<in> set xs" using ne st last_in_set by metis
  have Peq: "filter (\<lambda>j. \<forall>j'\<in>set xs. k j' \<le> k j) xs = filter ?P xs"
    by (rule filter_cong) (auto intro: mx antisym lin)
  have "filter ?P ys = filter ?P (rev xs)"
    unfolding ys_def by (rule sort_key_stable)
  then have "last (filter ?P ys) = hd (filter ?P xs)"
    by (simp add: rev_filter[symmetric] last_rev)
  moreover have "last (filter ?P ys) = last ys"
    using ne by (simp add: last_filter_keeps)
  ultimately have "last ys = hd (filter ?P xs)" by simp
  with hd_eq Peq have "hd (py_sorted_reverse k xs) = hd (filter (\<lambda>j. \<forall>j'\<in>set xs. k j' \<le> k j) xs)" by simp
  moreover have "py_sorted_reverse k xs \<noteq> []" using ne by (simp add: py_sorted_reverse_def ys_def[symmetric])
  ultimately show "\<exists>rest. py_sorted_reverse k xs = hd (filter (\<lambda>j. \<forall>j'\<in>set xs. k j' \<le> k j) xs) # rest"
    by (cases "py_sorted_reverse k xs") auto
qed

lemma pooled_fresh: "pooled_images fresh_account = 
   [\<lparr>ImageId = ''ami-old'', CreationDate = Some ''2023-03-01T00:00:00.000Z'',
                           Name = Some ''al2023-ami-old''\<rparr>,
                         \<lparr>ImageId = ''ami-new'', CreationDate = Some ''2024-05-01T00:00:00.000Z'',
                           Name = Some ''al2023-ami-new''\<rparr>]"
  by (simp add: pooled_images_def matching_images_def name_patterns_def fresh_account_def get_list_def)

text \<open>
  Claim C4. When the pool of images of all patterns is not empty, \<open>find_amzn2023_ami\<close>
  returns the \<open>ImageId\<close> of an image of the pool whose creation timestamp (the sort key)
  is at least that of every image of the pool; among several images with that timestamp
  it is the first in the order of the pool.
\<close>

theorem find_ami_latest:
  assumes "pooled_images env \<noteq> []"
  shows "\<exists>i\<in>set (pooled_images env).
           fst (find_amzn2023_ami env w) = Inr (ImageId i)
         \<and> (\<forall>j\<in>set (pooled_images env). creation_key j \<le> creation_key i)
         \<and> i = hd (filter (\<lambda>j. \<forall>j'\<in>set (pooled_images env). creation_key j' \<le> creation_key j)
                     (pooled_images env))"
proof -
  let ?pool = "pooled_images env"
  let ?i = "hd (py_sorted_reverse creation_key ?pool)"
  from py_sorted_reverse_head(1)[OF assms, of creation_key]
  obtain rest where srt: "py_sorted_reverse creation_key ?pool =
      hd (filter (\<lambda>j. \<forall>j'\<in>set ?pool. creation_key j' \<le> creation_key j) ?pool) # rest"
    by blast
  then have hd_eq: "?i = hd (filter (\<lambda>j. \<forall>j'\<in>set ?pool. creation_key j' \<le> creation_key j) ?pool)"
    by simp
  have col: "concat (map (matching_images env) name_patterns) = ?pool"
    by (simp add: pooled_images_def)
  have res: "fst (find_amzn2023_ami env w) = Inr (ImageId ?i)"
    using assms srt
    by (simp add: find_amzn2023_ami_def collect_images_result col Let_def)
  show ?thesis
    using py_sorted_reverse_head(2,3)[OF assms, of creation_key] res hd_eq by metis
qed

theorem find_ami_latest_witness:
  "pooled_images fresh_account =
     [\<lparr>ImageId = ''ami-old'', CreationDate = Some ''2023-03-01T00:00:00.000Z'',
       Name = Some ''al2023-ami-old''\<rparr>,
      \<lparr>ImageId = ''ami-new'', CreationDate = Some ''2024-05-01T00:00:00.000Z'',
       Name = Some ''al2023-ami-new''\<rparr>]
   \<and> fst (find_amzn2023_ami fresh_account empty_world) = Inr ''ami-new''"
proof -
  have ne: "pooled_images fresh_account \<noteq> []"
    by (simp add: pooled_fresh)
  have val: "fst (find_amzn2023_ami fresh_account empty_world) = Inr ''ami-new''"
    by code_simp
  from find_ami_latest [OF ne, of empty_world] val pooled_fresh show ?thesis
    by blast
qed

text \<open>
  Claim C10, as stated, fails: an image without \<open>CreationDate\<close> is selected although
  another image of the pool carries a \<open>CreationDate\<close>, when that one is the empty string
  and comes later in the pool.
\<close>

theorem undated_image_selected_counterexample:
  "pooled_images account_with_undated_image = [image_without_date, image_with_empty_date]
   \<and> CreationDate image_with_empty_date = Some []
   \<and> CreationDate image_without_date = None
   \<and> py_sorted_reverse creation_key (pooled_images account_with_undated_image)
       = [image_without_date, image_with_empty_date]
   \<and> fst (find_amzn2023_ami account_with_undated_image empty_world) = Inr (ImageId image_without_date)"
proof -
  have p: "pooled_images account_with_undated_image = [image_without_date, image_with_empty_date]"
    by (simp add: pooled_images_def matching_images_def name_patterns_def account_with_undated_image_def
        get_list_def)
  have s: "py_sorted_reverse creation_key [image_without_date, image_with_empty_date]
       = [image_without_date, image_with_empty_date]"
    by (simp add: py_sorted_reverse_def creation_key_def image_without_date_def image_with_empty_date_def)
  have c: "concat (map (matching_images account_with_undated_image) name_patterns) =
     [image_without_date, image_with_empty_date]"
    using p by (simp add: pooled_images_def)
  have r: "fst (find_amzn2023_ami account_with_undated_image empty_world) = Inr (ImageId image_without_date)"
    by (simp add: find_amzn2023_ami_def collect_images_result c s Let_def)
  show ?thesis using p s r
    by (simp add: image_without_date_def image_with_empty_date_def)
qed

text \<open>
  Claim C10, amended. An absent \<open>CreationDate\<close> sorts as the empty string, the smallest
  key; so when some image of the pool carries a non-empty \<open>CreationDate\<close>, the image that
  \<open>find_amzn2023_ami\<close> selects carries a \<open>CreationDate\<close>.
\<close>

theorem undated_image_not_selected:
  assumes "\<exists>j\<in>set (pooled_images env). \<exists>d. CreationDate j = Some d \<and> d \<noteq> []"
  shows "(\<forall>x y. CreationDate x = None \<longrightarrow> creation_key x = [] \<and> creation_key x \<le> creation_key y)
       \<and> (\<exists>i rest. py_sorted_reverse creation_key (pooled_images env) = i # rest
             \<and> fst (find_amzn2023_ami env w) = Inr (ImageId i)
             \<and> CreationDate i \<noteq> None)"
proof -
  let ?pool = "pooled_images env"
  from assms obtain j d where j: "j \<in> set ?pool" "CreationDate j = Some d" "d \<noteq> []" by blast
  then have ne: "?pool \<noteq> []" by auto
  from py_sorted_reverse_head(1)[OF ne, of creation_key]
  obtain i rest where srt: "py_sorted_reverse creation_key ?pool = i # rest"
    by blast
  then have i: "i = hd (py_sorted_reverse creation_key ?pool)" by simp
  have "creation_key j \<le> creation_key i"
    using py_sorted_reverse_head(3)[OF ne, of creation_key] j(1) i by blast
  then have "creation_key i \<noteq> []"
    using j(2,3) by (auto simp: creation_key_def)
  then have dated: "CreationDate i \<noteq> None"
    by (auto simp: creation_key_def split: option.splits)
  have col: "concat (map (matching_images env) name_patterns) = ?pool"
    by (simp add: pooled_images_def)
  have res: "fst (find_amzn2023_ami env w) = Inr (ImageId i)"
    using ne srt by (simp add: find_amzn2023_ami_def collect_images_result col Let_def)
  have smallest: "\<forall>x y. CreationDate x = None \<longrightarrow> creation_key x = [] \<and> creation_key x \<le> creation_key y"
    by (simp add: creation_key_def)
  show ?thesis using srt res dated smallest by blast
qed

theorem undated_image_not_selected_witness:
  "pooled_images account_with_dated_and_undated_image = [image_without_date, image_with_date]
   \<and> CreationDate image_without_date = None
   \<and> CreationDate image_with_date = Some ''2024-05-01T00:00:00.000Z''
   \<and> py_sorted_reverse creation_key (pooled_images account_with_dated_and_undated_image) =
       [image_with_date, image_without_date]
   \<and> fst (find_amzn2023_ami account_with_dated_and_undated_image empty_world) = Inr ''ami-dated''"
proof -
  let ?acct = "account_with_dated_and_undated_image"
  have p: "pooled_images ?acct = [image_without_date, image_with_date]"
    by (simp add: pooled_images_def matching_images_def name_patterns_def
        account_with_dated_and_undated_image_def get_list_def)
  have d: "CreationDate image_without_date = None"
    "CreationDate image_with_date = Some ''2024-05-01T00:00:00.000Z''"
    by (simp_all add: image_without_date_def image_with_date_def)
  have h: "\<exists>j\<in>set (pooled_images ?acct). \<exists>d. CreationDate j = Some d \<and> d \<noteq> []"
    by (simp add: p d)
  have s: "py_sorted_reverse creation_key (pooled_images ?acct) = [image_with_date, image_without_date]"
    by (simp add: p py_sorted_reverse_def creation_key_def d)
  from undated_image_not_selected [OF h, of empty_world]
  obtain i rest where "py_sorted_reverse creation_key (pooled_images ?acct) = i # rest"
    and r: "fst (find_amzn2023_ami ?acct empty_world) = Inr (ImageId i)"
    by blast
  with s have "i = image_with_date" by simp
  with r have "fst (find_amzn2023_ami ?acct empty_world) = Inr ''ami-dated''"
    by (simp add: image_with_date_def)
  with p d s show ?thesis by blast
qed

subsection \<open>Health polling\<close>

text \<open>
  The loop is unfolded one round at a time, so its defining equation is not a
  simplification rule below.
\<close>

declare wait_loop.simps [simp del]

lemma max_polls_step: "e < t \<Longrightarrow> max_polls (t - e) = Suc (max_polls (t - (e + 6)))"
  unfolding max_polls_def by (simp add: Suc_nat_eq_nat_zadd1) 

lemma max_polls_done: "\<not> e < t \<Longrightarrow> max_polls (t - e) = 0"
  unfolding max_polls_def by simp

lemma wait_loop_timeout:
  "\<forall>j < max_polls (t - e). probe_reports_unhealthy env tg i (health_probes w + j) \<Longrightarrow>
     fst (wait_loop env tg i t e w) = Inr False
   \<and> filter is_probe (trace (snd (wait_loop env tg i t e w))) =
       filter is_probe (trace w) @ replicate (max_polls (t - e)) (DescribeTargetHealth tg i)
   \<and> filter is_sleep (trace (snd (wait_loop env tg i t e w))) =
       filter is_sleep (trace w) @ replicate (max_polls (t - e)) (Sleep 6)
   \<and> last (trace (snd (wait_loop env tg i t e w))) = Print [S TIMEOUT_MSG]
   \<and> health_probes (snd (wait_loop env tg i t e w)) = health_probes w + max_polls (t - e)
   \<and> files (snd (wait_loop env tg i t e w)) = files w"
proof (induction env tg i t e w rule: wait_loop.induct)
  case (1 env tg i t e w)
  show ?case
  proof (cases "e < t")
    case False
    then show ?thesis
      by (subst (1 2 3 4 5 6) wait_loop.simps) (simp add: max_polls_done emit_def)
  next
    case True
    note step = max_polls_step[OF True]
    from "1.prems" step have p0: "probe_reports_unhealthy env tg i (health_probes w)"
      by (metis add.right_neutral zero_less_Suc)
    then obtain resp where resp: "elbv2_describe_target_health env (health_probes w) tg i = Inr resp"
      by (auto simp: probe_reports_unhealthy_def split: sum.splits)
    let ?w1 = "(emit (DescribeTargetHealth tg i) w)\<lparr>health_probes := Suc (health_probes w)\<rparr>"
    have dth: "describe_target_health env tg i w = (Inr resp, ?w1)"
      by (simp add: describe_target_health_def resp)
    show ?thesis
    proof (cases "get_list resp")
      case Nil
      have rest: "\<forall>j < max_polls (t - (e + 6)). probe_reports_unhealthy env tg i (health_probes (emit (Sleep 6) ?w1) + j)"
        using "1.prems" step by (auto simp: emit_def)
      have unf: "wait_loop env tg i t e w = wait_loop env tg i t (e + 6) (emit (Sleep 6) ?w1)"
        by (subst wait_loop.simps) (simp add: True dth Nil)
      show ?thesis
        unfolding unf step
        using "1.IH"(1)[OF True dth[symmetric] refl Nil rest]
        by (simp add: emit_def replicate_append_same)
    next
      case (Cons st sts)
      let ?w2 = "emit (Print [S ''Target state:'', S (State st)]) ?w1"
      from p0 have nh: "State st \<noteq> ''healthy''"
        by (simp add: probe_reports_unhealthy_def resp Cons)
      have rest: "\<forall>j < max_polls (t - (e + 6)). probe_reports_unhealthy env tg i (health_probes (emit (Sleep 6) ?w2) + j)"
        using "1.prems" step by (auto simp: emit_def)
      have unf: "wait_loop env tg i t e w = wait_loop env tg i t (e + 6) (emit (Sleep 6) ?w2)"
        by (subst wait_loop.simps) (simp add: True dth Cons nh Let_def)
      show ?thesis
        unfolding unf step
        using "1.IH"(2)[OF True dth[symmetric] refl Cons refl nh rest]
        by (simp add: emit_def replicate_append_same)
    qed
  qed
qed


lemma wait_loop_iteration:
  assumes "e < t" and "probe_reports_unhealthy env tg i (health_probes w)"
  shows "\<exists>w'. wait_loop env tg i t e w = wait_loop env tg i t (e + 6) w'
            \<and> health_probes w' = Suc (health_probes w)
            \<and> filter is_probe (trace w') = filter is_probe (trace w) @ [DescribeTargetHealth tg i]
            \<and> filter is_sleep (trace w') = filter is_sleep (trace w) @ [Sleep 6]
            \<and> files w' = files w"
proof -
  from assms(2) obtain resp where resp: "elbv2_describe_target_health env (health_probes w) tg i = Inr resp"
    by (auto simp: probe_reports_unhealthy_def split: sum.splits)
  let ?w1 = "(emit (DescribeTargetHealth tg i) w)\<lparr>health_probes := Suc (health_probes w)\<rparr>"
  show ?thesis
  proof (cases "get_list resp")
    case Nil
    have "wait_loop env tg i t e w = wait_loop env tg i t (e + 6) (emit (Sleep 6) ?w1)"
      by (subst wait_loop.simps) (simp add: assms(1) describe_target_health_def resp Nil)
    then show ?thesis
      by (intro exI[of _ "emit (Sleep 6) ?w1"]) (simp add: emit_def)
  next
    case (Cons st sts)
    from assms(2) have nh: "State st \<noteq> ''healthy''"
      by (simp add: probe_reports_unhealthy_def resp Cons)
    let ?w2 = "emit (Print [S ''Target state:'', S (State st)]) ?w1"
    have "wait_loop env tg i t e w = wait_loop env tg i t (e + 6) (emit (Sleep 6) ?w2)"
      by (subst wait_loop.simps) (simp add: assms(1) describe_target_health_def resp Cons nh Let_def)
    then show ?thesis
      by (intro exI[of _ "emit (Sleep 6) ?w2"]) (simp add: emit_def)
  qed
qed

lemma wait_loop_first_healthy:
  "k < max_polls (t - e) \<Longrightarrow>
   \<forall>j < k. probe_reports_unhealthy env tg i (health_probes w + j) \<Longrightarrow>
   probe_reports_healthy env tg i (health_probes w + k) \<Longrightarrow>
     fst (wait_loop env tg i t e w) = Inr True
   \<and> filter is_probe (trace (snd (wait_loop env tg i t e w))) =
       filter is_probe (trace w) @ replicate (Suc k) (DescribeTargetHealth tg i)
   \<and> filter is_sleep (trace (snd (wait_loop env tg i t e w))) =
       filter is_sleep (trace w) @ replicate k (Sleep 6)
   \<and> last (trace (snd (wait_loop env tg i t e w))) = Print [S ''Target state:'', S ''healthy'']
   \<and> health_probes (snd (wait_loop env tg i t e w)) = health_probes w + Suc k
   \<and> files (snd (wait_loop env tg i t e w)) = files w"
proof (induction k arbitrary: e w)
  case 0
  then have lt: "e < t" by (auto simp: max_polls_def)
  from "0.prems"(3) obtain resp st sts where
    resp: "elbv2_describe_target_health env (health_probes w) tg i = Inr resp"
    and st: "get_list resp = st # sts" "State st = ''healthy''"
    by (auto simp: probe_reports_healthy_def split: sum.splits list.splits)
  show ?case
    by (subst (1 2 3 4 5 6) wait_loop.simps)
       (simp add: lt describe_target_health_def resp st emit_def Let_def)
next
  case (Suc k)
  then have lt: "e < t" by (auto simp: max_polls_def)
  from Suc.prems(2) have p0: "probe_reports_unhealthy env tg i (health_probes w)"
    by (metis add.right_neutral zero_less_Suc)
  from wait_loop_iteration[OF lt p0] obtain w' where
    w': "wait_loop env tg i t e w = wait_loop env tg i t (e + 6) w'"
        "health_probes w' = Suc (health_probes w)"
        "filter is_probe (trace w') = filter is_probe (trace w) @ [DescribeTargetHealth tg i]"
        "filter is_sleep (trace w') = filter is_sleep (trace w) @ [Sleep 6]"
        "files w' = files w"
    by blast
  have a: "k < max_polls (t - (e + 6))"
    using Suc.prems(1) max_polls_step[OF lt] by simp
  have b: "\<forall>j < k. probe_reports_unhealthy env tg i (health_probes w' + j)"
    using Suc.prems(2) w'(2) by auto
  have c: "probe_reports_healthy env tg i (health_probes w' + k)"
    using Suc.prems(3) w'(2) by simp
  show ?case
    unfolding w'(1)
    using Suc.IH[OF a b c] w'(2-5)
    by (simp add: replicate_append_same)
qed

lemma wait_loop_bounded:
  "length (filter is_probe (trace (snd (wait_loop env tg i t e w)))) \<le>
     length (filter is_probe (trace w)) + max_polls (t - e)
   \<and> (\<exists>m \<le> max_polls (t - e).
        filter is_sleep (trace (snd (wait_loop env tg i t e w))) =
          filter is_sleep (trace w) @ replicate m (Sleep 6))
   \<and> ((\<forall>j < max_polls (t - e). \<exists>resp. elbv2_describe_target_health env (health_probes w + j) tg i = Inr resp)
        \<longrightarrow> (\<exists>b. fst (wait_loop env tg i t e w) = Inr b))"
proof (induction env tg i t e w rule: wait_loop.induct)
  case (1 env tg i t e w)
  show ?case
  proof (cases "e < t")
    case False
    then show ?thesis
      by (subst (1 2 3) wait_loop.simps) (auto simp add: max_polls_done emit_def)
  next
    case True
    note step = max_polls_step[OF True]
    let ?w1 = "(emit (DescribeTargetHealth tg i) w)\<lparr>health_probes := Suc (health_probes w)\<rparr>"
    show ?thesis
    proof (cases "elbv2_describe_target_health env (health_probes w) tg i")
      case (Inl ex)
      have dth: "describe_target_health env tg i w = (Inl ex, ?w1)"
        by (simp add: describe_target_health_def Inl)
      have unf: "wait_loop env tg i t e w = (Inl (Exc ex), ?w1)"
        by (subst wait_loop.simps) (simp add: True dth)
      have "\<not> (\<forall>j < max_polls (t - e). \<exists>resp. elbv2_describe_target_health env (health_probes w + j) tg i = Inr resp)"
        using Inl step by (auto intro!: exI[of _ 0])
      then show ?thesis
        unfolding unf by (simp add: emit_def step exI[of _ 0])
    next
      case (Inr resp)
      have dth: "describe_target_health env tg i w = (Inr resp, ?w1)"
        by (simp add: describe_target_health_def Inr)
      have shift: "(\<forall>j < max_polls (t - e). \<exists>resp. elbv2_describe_target_health env (health_probes w + j) tg i = Inr resp)
         \<Longrightarrow> (\<forall>j < max_polls (t - (e + 6)). \<exists>resp. elbv2_describe_target_health env (Suc (health_probes w) + j) tg i = Inr resp)"
        unfolding step by (metis Suc_less_eq add_Suc_shift)
      show ?thesis
      proof (cases "get_list resp")
        case Nil
        have unf: "wait_loop env tg i t e w = wait_loop env tg i t (e + 6) (emit (Sleep 6) ?w1)"
          by (subst wait_loop.simps) (simp add: True dth Nil)
        from "1.IH"(1)[OF True dth[symmetric] refl Nil]
        obtain m where m: "m \<le> max_polls (t - (e + 6))"
          "filter is_sleep (trace (snd (wait_loop env tg i t (e + 6) (emit (Sleep 6) ?w1)))) =
             filter is_sleep (trace (emit (Sleep 6) ?w1)) @ replicate m (Sleep 6)"
          by blast
        have sl: "\<exists>m' \<le> max_polls (t - e). filter is_sleep (trace (snd (wait_loop env tg i t e w))) =
             filter is_sleep (trace w) @ replicate m' (Sleep 6)"
          unfolding unf step using m by (intro exI[of _ "Suc m"]) (simp add: emit_def)
        show ?thesis
          using "1.IH"(1)[OF True dth[symmetric] refl Nil] sl shift
          unfolding unf step by (simp add: emit_def)
      next
        case (Cons st sts)
        let ?w2 = "emit (Print [S ''Target state:'', S (State st)]) ?w1"
        show ?thesis
        proof (cases "State st = ''healthy''")
          case True': True
          have unf: "wait_loop env tg i t e w = (Inr True, ?w2)"
            by (subst wait_loop.simps) (simp add: True dth Cons True' Let_def)
          show ?thesis unfolding unf by (auto simp add: emit_def step intro: exI[of _ 0])
        next
          case nh: False
          have unf: "wait_loop env tg i t e w = wait_loop env tg i t (e + 6) (emit (Sleep 6) ?w2)"
            by (subst wait_loop.simps) (simp add: True dth Cons nh Let_def)
          from "1.IH"(2)[OF True dth[symmetric] refl Cons refl nh]
          obtain m where m: "m \<le> max_polls (t - (e + 6))"
            "filter is_sleep (trace (snd (wait_loop env tg i t (e + 6) (emit (Sleep 6) ?w2)))) =
               filter is_sleep (trace (emit (Sleep 6) ?w2)) @ replicate m (Sleep 6)"
            by blast
          have sl: "\<exists>m' \<le> max_polls (t - e). filter is_sleep (trace (snd (wait_loop env tg i t e w))) =
               filter is_sleep (trace w) @ replicate m' (Sleep 6)"
            unfolding unf step using m by (intro exI[of _ "Suc m"]) (simp add: emit_def)
          show ?thesis
            using "1.IH"(2)[OF True dth[symmetric] refl Cons refl nh] sl shift
            unfolding unf step by (simp add: emit_def)
        qed
      qed
    qed
  qed
qed

lemma max_polls_ceiling:
  assumes "0 \<le> t"
  shows "t \<le> 6 * int (max_polls t) \<and> 6 * int (max_polls t) < t + 6"
proof -
  from assms have nn: "0 \<le> (t + 5) div 6" by simp
  have "t \<le> 6 * ((t + 5) div 6)" "6 * ((t + 5) div 6) < t + 6"
    by presburger+
  with nn show ?thesis by (simp add: max_polls_def)
qed

lemma max_polls_multiple: "max_polls (6 * int m) = m"
  unfolding max_polls_def by simp

text \<open>
  Claim C3. If the probes before the \<open>k\<close>-th report no healthy target, the \<open>k\<close>-th does and
  \<open>k\<close> is below the number of rounds the timeout allows, \<open>wait_for_targets_healthy\<close>
  returns \<open>True\<close> after \<open>k + 1\<close> probes and \<open>k\<close> sleeps of 6, the print of the healthy state
  being the last event (no sleep follows it). If none of the allowed probes reports a
  healthy target, it returns \<open>False\<close> after \<open>max_polls timeout_seconds\<close> probes and as many
  sleeps, when the elapsed time \<open>6 * max_polls timeout_seconds\<close> has reached the timeout.
  With \<open>elapsed = timeout_seconds\<close> the loop ends without a probe; so a timeout of \<open>6 * m\<close>
  allows exactly \<open>m\<close> probes.
\<close>

theorem wait_for_targets_healthy_result:
  "(k < max_polls timeout_seconds
      \<and> (\<forall>j < k. probe_reports_unhealthy env tg_arn instance_id (health_probes w + j))
      \<and> probe_reports_healthy env tg_arn instance_id (health_probes w + k) \<longrightarrow>
        fst (wait_for_targets_healthy env tg_arn instance_id timeout_seconds w) = Inr True
      \<and> filter is_probe (trace (snd (wait_for_targets_healthy env tg_arn instance_id timeout_seconds w))) =
          filter is_probe (trace w) @ replicate (Suc k) (DescribeTargetHealth tg_arn instance_id)
      \<and> filter is_sleep (trace (snd (wait_for_targets_healthy env tg_arn instance_id timeout_seconds w))) =
          filter is_sleep (trace w) @ replicate k (Sleep 6)
      \<and> last (trace (snd (wait_for_targets_healthy env tg_arn instance_id timeout_seconds w))) =
          Print [S ''Target state:'', S ''healthy''])
   \<and> ((\<forall>j < max_polls timeout_seconds. probe_reports_unhealthy env tg_arn instance_id (health_probes w + j)) \<longrightarrow>
        fst (wait_for_targets_healthy env tg_arn instance_id timeout_seconds w) = Inr False
      \<and> filter is_probe (trace (snd (wait_for_targets_healthy env tg_arn instance_id timeout_seconds w))) =
          filter is_probe (trace w) @ replicate (max_polls timeout_seconds) (DescribeTargetHealth tg_arn instance_id)
      \<and> filter is_sleep (trace (snd (wait_for_targets_healthy env tg_arn instance_id timeout_seconds w))) =
          filter is_sleep (trace w) @ replicate (max_polls timeout_seconds) (Sleep 6)
      \<and> last (trace (snd (wait_for_targets_healthy env tg_arn instance_id timeout_seconds w))) =
          Print [S TIMEOUT_MSG])
   \<and> wait_loop env tg_arn instance_id timeout_seconds timeout_seconds w =
        (Inr False, emit (Print [S TIMEOUT_MSG]) w)
   \<and> max_polls (6 * int m) = m
   \<and> (0 \<le> timeout_seconds \<longrightarrow>
        timeout_seconds \<le> 6 * int (max_polls timeout_seconds)
      \<and> 6 * int (max_polls timeout_seconds) < timeout_seconds + 6)"
proof -
  let ?w = "emit (Print [S ''Waiting for target to become healthy (may take a minute)...'']) w"
  have w: "health_probes ?w = health_probes w" "filter is_probe (trace ?w) = filter is_probe (trace w)"
    "filter is_sleep (trace ?w) = filter is_sleep (trace w)"
    by (simp_all add: emit_def)
  have healthy: "fst (wait_for_targets_healthy env tg_arn instance_id timeout_seconds w) = Inr True
      \<and> filter is_probe (trace (snd (wait_for_targets_healthy env tg_arn instance_id timeout_seconds w))) =
          filter is_probe (trace w) @ replicate (Suc k) (DescribeTargetHealth tg_arn instance_id)
      \<and> filter is_sleep (trace (snd (wait_for_targets_healthy env tg_arn instance_id timeout_seconds w))) =
          filter is_sleep (trace w) @ replicate k (Sleep 6)
      \<and> last (trace (snd (wait_for_targets_healthy env tg_arn instance_id timeout_seconds w))) =
          Print [S ''Target state:'', S ''healthy'']"
    if "k < max_polls timeout_seconds"
      "\<forall>j < k. probe_reports_unhealthy env tg_arn instance_id (health_probes w + j)"
      "probe_reports_healthy env tg_arn instance_id (health_probes w + k)"
    using wait_loop_first_healthy[of k timeout_seconds 0 env tg_arn instance_id ?w] that
    unfolding wait_for_targets_healthy_def w by simp
  have timeout: "fst (wait_for_targets_healthy env tg_arn instance_id timeout_seconds w) = Inr False
      \<and> filter is_probe (trace (snd (wait_for_targets_healthy env tg_arn instance_id timeout_seconds w))) =
          filter is_probe (trace w) @ replicate (max_polls timeout_seconds) (DescribeTargetHealth tg_arn instance_id)
      \<and> filter is_sleep (trace (snd (wait_for_targets_healthy env tg_arn instance_id timeout_seconds w))) =
          filter is_sleep (trace w) @ replicate (max_polls timeout_seconds) (Sleep 6)
      \<and> last (trace (snd (wait_for_targets_healthy env tg_arn instance_id timeout_seconds w))) =
          Print [S TIMEOUT_MSG]"
    if "\<forall>j < max_polls timeout_seconds. probe_reports_unhealthy env tg_arn instance_id (health_probes w + j)"
    using wait_loop_timeout[of timeout_seconds 0 env tg_arn instance_id ?w] that
    unfolding wait_for_targets_healthy_def w by simp
  have boundary: "wait_loop env tg_arn instance_id timeout_seconds timeout_seconds w =
        (Inr False, emit (Print [S TIMEOUT_MSG]) w)"
    by (subst wait_loop.simps) simp
  show ?thesis
    using healthy timeout boundary max_polls_multiple[of m] max_polls_ceiling[of timeout_seconds]
    by blast
qed

theorem wait_for_targets_healthy_result_witness:
  "fst (wait_for_targets_healthy fresh_account ''arn:tg'' ''i-1'' 240 empty_world) = Inr True
   \<and> filter is_probe (trace (snd (wait_for_targets_healthy fresh_account ''arn:tg'' ''i-1'' 240 empty_world))) =
       replicate 3 (DescribeTargetHealth ''arn:tg'' ''i-1'')
   \<and> filter is_sleep (trace (snd (wait_for_targets_healthy fresh_account ''arn:tg'' ''i-1'' 240 empty_world))) =
       replicate 2 (Sleep 6)
   \<and> fst (wait_for_targets_healthy never_healthy_account ''arn:tg'' ''i-1'' 12 empty_world) = Inr False
   \<and> filter is_probe (trace (snd (wait_for_targets_healthy never_healthy_account ''arn:tg'' ''i-1'' 12 empty_world))) =
       replicate 2 (DescribeTargetHealth ''arn:tg'' ''i-1'')
   \<and> filter is_sleep (trace (snd (wait_for_targets_healthy never_healthy_account ''arn:tg'' ''i-1'' 12 empty_world))) =
       replicate 2 (Sleep 6)
   \<and> (12::int) \<le> 6 * int (max_polls 12)"
proof -
  have m240: "max_polls 240 = 40" and m12: "max_polls 12 = 2"
    by (simp_all add: max_polls_def)
  have a: "(2::nat) < max_polls 240" by (simp add: m240)
  have b: "\<forall>j < 2. probe_reports_unhealthy fresh_account ''arn:tg'' ''i-1'' (health_probes empty_world + j)"
    by (simp add: probe_reports_unhealthy_def fresh_account_def get_list_def empty_world_def)
  have c: "probe_reports_healthy fresh_account ''arn:tg'' ''i-1'' (health_probes empty_world + 2)"
    by (simp add: probe_reports_healthy_def fresh_account_def get_list_def empty_world_def)
  have d: "\<forall>j < max_polls 12. probe_reports_unhealthy never_healthy_account ''arn:tg'' ''i-1'' (health_probes empty_world + j)"
    by (simp add: probe_reports_unhealthy_def never_healthy_account_def fresh_account_def get_list_def)
  show ?thesis
    using wait_for_targets_healthy_result
            [of 2 240 fresh_account "''arn:tg''" "''i-1''" empty_world 0]
          wait_for_targets_healthy_result
            [of 0 12 never_healthy_account "''arn:tg''" "''i-1''" empty_world 0]
          a b c d
    by (simp add: empty_world_def m12 numeral_2_eq_2 numeral_3_eq_3)
qed

text \<open>
  Claim C9. For a timeout that is not negative, \<open>wait_for_targets_healthy\<close> makes at most
  \<open>max_polls timeout_seconds\<close> probes, which is \<open>timeout_seconds / 6\<close> rounded up; every
  sleep is of 6 and there are at most as many; a round that does not return continues
  with \<open>elapsed + 6\<close>; and when none of these probes raises, the function returns a boolean.
\<close>

theorem wait_for_targets_healthy_terminates:
  "0 \<le> timeout_seconds \<Longrightarrow>
     length (filter is_probe (trace (snd (wait_for_targets_healthy env tg_arn instance_id timeout_seconds w)))) \<le>
       length (filter is_probe (trace w)) + max_polls timeout_seconds
   \<and> (\<exists>m \<le> max_polls timeout_seconds.
        filter is_sleep (trace (snd (wait_for_targets_healthy env tg_arn instance_id timeout_seconds w))) =
          filter is_sleep (trace w) @ replicate m (Sleep 6))
   \<and> ((\<forall>j < max_polls timeout_seconds.
          \<exists>resp. elbv2_describe_target_health env (health_probes w + j) tg_arn instance_id = Inr resp)
        \<longrightarrow> (\<exists>b. fst (wait_for_targets_healthy env tg_arn instance_id timeout_seconds w) = Inr b))
   \<and> timeout_seconds \<le> 6 * int (max_polls timeout_seconds)
   \<and> 6 * int (max_polls timeout_seconds) < timeout_seconds + 6
   \<and> (\<forall>elapsed w1. elapsed < timeout_seconds
          \<and> probe_reports_unhealthy env tg_arn instance_id (health_probes w1) \<longrightarrow>
        (\<exists>w2. wait_loop env tg_arn instance_id timeout_seconds elapsed w1 =
               wait_loop env tg_arn instance_id timeout_seconds (elapsed + 6) w2))"
proof -
  assume nonneg: "0 \<le> timeout_seconds"
  let ?w = "emit (Print [S ''Waiting for target to become healthy (may take a minute)...'']) w"
  have w: "health_probes ?w = health_probes w" "filter is_probe (trace ?w) = filter is_probe (trace w)"
    "filter is_sleep (trace ?w) = filter is_sleep (trace w)"
    by (simp_all add: emit_def)
  have bounded: "length (filter is_probe (trace (snd (wait_for_targets_healthy env tg_arn instance_id timeout_seconds w)))) \<le>
       length (filter is_probe (trace w)) + max_polls timeout_seconds
   \<and> (\<exists>m \<le> max_polls timeout_seconds.
        filter is_sleep (trace (snd (wait_for_targets_healthy env tg_arn instance_id timeout_seconds w))) =
          filter is_sleep (trace w) @ replicate m (Sleep 6))
   \<and> ((\<forall>j < max_polls timeout_seconds.
          \<exists>resp. elbv2_describe_target_health env (health_probes w + j) tg_arn instance_id = Inr resp)
        \<longrightarrow> (\<exists>b. fst (wait_for_targets_healthy env tg_arn instance_id timeout_seconds w) = Inr b))"
    using wait_loop_bounded[of env tg_arn instance_id timeout_seconds 0 ?w]
    unfolding wait_for_targets_healthy_def w by simp
  have iter: "\<forall>elapsed w1. elapsed < timeout_seconds
          \<and> probe_reports_unhealthy env tg_arn instance_id (health_probes w1) \<longrightarrow>
        (\<exists>w2. wait_loop env tg_arn instance_id timeout_seconds elapsed w1 =
               wait_loop env tg_arn instance_id timeout_seconds (elapsed + 6) w2)"
    using wait_loop_iteration by blast
  show ?thesis
    using bounded iter max_polls_ceiling[OF nonneg] by blast
qed

theorem wait_for_targets_healthy_terminates_witness:
  "(0::int) \<le> 12
   \<and> length (filter is_probe (trace (snd (wait_for_targets_healthy never_healthy_account ''arn:tg'' ''i-1'' 12 empty_world)))) \<le> 2
   \<and> (\<exists>b. fst (wait_for_targets_healthy never_healthy_account ''arn:tg'' ''i-1'' 12 empty_world) = Inr b)
   \<and> max_polls 12 = 2 \<and> max_polls 10 = 2 \<and> max_polls 0 = 0"
proof -
  have m: "max_polls 12 = 2" "max_polls 10 = 2" "max_polls 0 = 0"
    by (simp_all add: max_polls_def)
  have h: "(0::int) \<le> 12" by simp
  have ok: "\<forall>j < max_polls 12. \<exists>resp. elbv2_describe_target_health never_healthy_account
               (health_probes empty_world + j) ''arn:tg'' ''i-1'' = Inr resp"
    by (simp add: never_healthy_account_def fresh_account_def)
  show ?thesis
    using wait_for_targets_healthy_terminates
            [OF h, of never_healthy_account "''arn:tg''" "''i-1''" empty_world] ok m
    by (simp add: empty_world_def)
qed

subsection \<open>A run of main\<close>

text \<open>
  What each step of \<open>main\<close> adds to the observed events of the log: nothing, for most
  steps; at most one authorization, with the permissions of the given rules, for
  \<open>create_security_group\<close>; at most the lookup in the parameter store, for the image
  search; the launch and possibly the wait, for the \<open>try\<close> body; the timeout print
  exactly when the result is \<open>False\<close>, for the polling loop.
\<close>

lemma observations_emit:
  "observations (emit e w) = (if observed e then observations w @ [e] else observations w)"
  by (simp add: observations_def emit_def)

lemma observations_update [simp]:
  "observations (w\<lparr>files := fs\<rparr>) = observations w"
  "observations (w\<lparr>health_probes := n\<rparr>) = observations w"
  by (simp_all add: observations_def)

lemmas msg_defs = SUCCESS_MSG_def TIMEOUT_MSG_def ADVISORY_MSG_def

lemma get_my_public_ip_quiet:
  "get_my_public_ip env w = (r, w') \<Longrightarrow> observations w' = observations w \<and> (\<exists>ip. r = Inr ip)"
  by (auto simp: get_my_public_ip_def observations_emit msg_defs Let_def split: sum.splits)

lemma get_default_vpc_quiet:
  "get_default_vpc env w = (r, w') \<Longrightarrow> observations w' = observations w"
  by (auto simp: get_default_vpc_def observations_emit Let_def split: sum.splits list.splits)

lemma get_subnets_for_vpc_quiet:
  "get_subnets_for_vpc env v w = (r, w') \<Longrightarrow> observations w' = observations w"
  by (auto simp: get_subnets_for_vpc_def observations_emit Let_def split: sum.splits if_splits)

lemma create_keypair_quiet:
  "create_keypair_if_not_exists env k p w = (r, w') \<Longrightarrow> observations w' = observations w"
  by (auto simp: create_keypair_if_not_exists_def create_and_save_keypair_def
      os_open_wronly_creat_def file_write_def os_chmod_def bind_r_def
      observations_emit msg_defs Let_def
      split: sum.splits if_splits py_exception.splits option.splits)

lemma create_security_group_observed:
  "create_security_group env v n d rules w = (r, w') \<Longrightarrow>
     observations w' = observations w
   \<or> (\<exists>g. observations w' = observations w @ [AuthorizeSecurityGroupIngress g (map rule_permission rules)])"
  by (auto simp: create_security_group_def observations_emit msg_defs Let_def
      split: sum.splits list.splits)

lemma collect_images_quiet:
  "observations (snd (collect_images env pats acc w)) = observations w"
proof -
  have "filter observed (map DescribeImages pats) = []"
    by (induction pats) simp_all
  then show ?thesis
    by (simp add: collect_images_result observations_def)
qed

lemma find_amzn2023_ami_observed:
  assumes "find_amzn2023_ami env w = (r, w')"
  shows "observations w' = observations w
       \<or> (observations w' = observations w @ [GetParameter AL2_PARAMETER]
          \<and> (\<forall>e. ssm_get_parameter env AL2_PARAMETER = Inl e \<longrightarrow>
                r = Inl (SystemExit (ExitMsg
                      (''Failed to find AL2023 or fallback AMI. Error: '' @ str_exc e)))))"
proof -
  let ?w1 = "emit (Print [S ''Searching for latest Amazon Linux 2023 AMI...'']) w"
  obtain imgs w2 where c: "collect_images env name_patterns [] ?w1 = (imgs, w2)"
    by fastforce
  have "observations w2 = observations ?w1"
    using collect_images_quiet[of env name_patterns "[]" ?w1] c by simp
  then have o2: "observations w2 = observations w"
    by (simp add: observations_emit msg_defs)
  show ?thesis
    using assms o2
    by (auto simp: find_amzn2023_ami_def c observations_emit msg_defs Let_def
        split: sum.splits list.splits if_splits)
qed

lemma first_or_IndexError_quiet:
  "first_or_IndexError xs w = (r, w') \<Longrightarrow> w' = w"
  by (auto simp: first_or_IndexError_def split: list.splits)

lemma create_target_group_quiet:
  "create_target_group env n v p w = (r, w') \<Longrightarrow> observations w' = observations w"
  by (auto simp: create_target_group_def first_or_IndexError_def bind_r_def observations_emit Let_def
      split: sum.splits list.splits)

lemma create_alb_quiet:
  "create_alb env n s g w = (r, w') \<Longrightarrow> observations w' = observations w"
  by (auto simp: create_alb_def first_or_IndexError_def bind_r_def observations_emit Let_def
      split: sum.splits list.splits)

lemma create_listener_quiet:
  "create_listener env a t p w = (r, w') \<Longrightarrow> observations w' = observations w"
  by (auto simp: create_listener_def first_or_IndexError_def bind_r_def observations_emit Let_def
      split: sum.splits list.splits)

lemma register_targets_quiet:
  "register_targets env t i p w = (r, w') \<Longrightarrow> observations w' = observations w"
  by (auto simp: register_targets_def observations_emit msg_defs Let_def split: sum.splits)

lemma wait_loop_observed:
  "observations (snd (wait_loop env tg i t e w)) =
     observations w @ (if fst (wait_loop env tg i t e w) = Inr False then [Print [S TIMEOUT_MSG]] else [])"
proof (induction env tg i t e w rule: wait_loop.induct)
  case (1 env tg i t e w)
  show ?case
  proof (cases "e < t")
    case False
    then show ?thesis
      by (subst (1 2) wait_loop.simps) (simp add: observations_emit)
  next
    case True
    let ?w1 = "(emit (DescribeTargetHealth tg i) w)\<lparr>health_probes := Suc (health_probes w)\<rparr>"
    have o1: "observations ?w1 = observations w" by (simp add: observations_emit)
    show ?thesis
    proof (cases "elbv2_describe_target_health env (health_probes w) tg i")
      case (Inl ex)
      have "wait_loop env tg i t e w = (Inl (Exc ex), ?w1)"
        by (subst wait_loop.simps) (simp add: True describe_target_health_def Inl)
      then show ?thesis by (simp add: observations_emit)
    next
      case (Inr resp)
      have dth: "describe_target_health env tg i w = (Inr resp, ?w1)"
        by (simp add: describe_target_health_def Inr)
      show ?thesis
      proof (cases "get_list resp")
        case Nil
        have unf: "wait_loop env tg i t e w = wait_loop env tg i t (e + 6) (emit (Sleep 6) ?w1)"
          by (subst wait_loop.simps) (simp add: True dth Nil)
        show ?thesis
          unfolding unf using "1.IH"(1)[OF True dth[symmetric] refl Nil]
          by (simp add: observations_emit)
      next
        case (Cons st sts)
        let ?w2 = "emit (Print [S ''Target state:'', S (State st)]) ?w1"
        show ?thesis
        proof (cases "State st = ''healthy''")
          case h: True
          have "wait_loop env tg i t e w = (Inr True, ?w2)"
            by (subst wait_loop.simps) (simp add: True dth Cons h Let_def)
          then show ?thesis by (simp add: observations_emit)
        next
          case nh: False
          have unf: "wait_loop env tg i t e w = wait_loop env tg i t (e + 6) (emit (Sleep 6) ?w2)"
            by (subst wait_loop.simps) (simp add: True dth Cons nh Let_def)
          show ?thesis
            unfolding unf using "1.IH"(2)[OF True dth[symmetric] refl Cons refl nh]
            by (simp add: observations_emit)
        qed
      qed
    qed
  qed
qed

lemma wait_for_targets_healthy_observed:
  "wait_for_targets_healthy env tg i t w = (r, w') \<Longrightarrow>
     observations w' = observations w @ (if r = Inr False then [Print [S TIMEOUT_MSG]] else [])"
  using wait_loop_observed[of env tg i t 0 "emit (Print [S ''Waiting for target to become healthy (may take a minute)...'']) w"]
  by (simp add: wait_for_targets_healthy_def observations_emit msg_defs)

lemma report_observed:
  "observations (report healthy dns tg inst sg1 sg2 w) =
     observations w @ (if healthy then [] else [Print [S ADVISORY_MSG]]) @ [Print [S SUCCESS_MSG]]"
  by (simp add: report_def observations_emit msg_defs em_dash_def Let_def)


lemma launch_instance_observed:
  assumes "launch_instance env ami sg sn w = (r, w')"
  shows "\<exists>req waits. observations w' = observations w @ CreateInstances req # waits
           \<and> (\<forall>e. ec2_create_instances env req = Inl e \<longrightarrow> r = Inl e)
           \<and> (waits = [] \<or> (\<exists>i. waits = [WaitUntilRunning i]
                               \<and> (\<forall>e. inst_wait_until_running env i = Inl e \<longrightarrow> r = Inl e)))"
  using assms
  by (auto simp: launch_instance_def observations_emit Let_def
      split: sum.splits list.splits prod.splits)

lemma main_after_launch_observed:
  assumes "main_after_launch env v sns sg1 sg2 inst w = (r, w')"
  shows "\<exists>tail. observations w' = observations w @ tail
           \<and> ((tail = [] \<and> (\<exists>x. r = Inl x))
             \<or> (tail = [Print [S SUCCESS_MSG]] \<and> r = Inr ())
             \<or> (tail = [Print [S TIMEOUT_MSG], Print [S ADVISORY_MSG], Print [S SUCCESS_MSG]] \<and> r = Inr ()))"
  using assms unfolding main_after_launch_def bind_r_def
  by (auto split: prod.splits sum.splits simp: report_observed
      dest!: create_target_group_quiet create_alb_quiet create_listener_quiet
        register_targets_quiet wait_for_targets_healthy_observed)


lemmas main_steps =
  get_my_public_ip_quiet get_default_vpc_quiet get_subnets_for_vpc_quiet create_keypair_quiet
  create_security_group_observed find_amzn2023_ami_observed first_or_IndexError_quiet
  launch_instance_observed main_after_launch_observed

lemma main_success_observed:
  assumes "main env w = (r, w')"
    and "Print [S SUCCESS_MSG] \<in> set (observations w')"
    and "Print [S SUCCESS_MSG] \<notin> set (observations w)"
  shows "r = Inr ()"
  using assms unfolding main_def bind_r_def
  by (auto split: prod.splits sum.splits simp: observations_emit Let_def msg_defs
      dest!: main_steps)


lemma main_timeout_observed:
  assumes "main env w = (r, w')"
    and "Print [S TIMEOUT_MSG] \<in> set (observations w')"
    and "Print [S TIMEOUT_MSG] \<notin> set (observations w)"
  shows "r = Inr () \<and> Print [S ADVISORY_MSG] \<in> set (observations w')
         \<and> Print [S SUCCESS_MSG] \<in> set (observations w')"
  using assms unfolding main_def bind_r_def
  by (auto split: prod.splits sum.splits simp: observations_emit Let_def msg_defs
      dest!: main_steps)

lemma main_launch_observed:
  assumes "main env w = (r, w')"
    and "\<forall>req. CreateInstances req \<notin> set (observations w)"
    and "\<forall>i. WaitUntilRunning i \<notin> set (observations w)"
  shows "(CreateInstances req \<in> set (observations w') \<and> ec2_create_instances env req = Inl e
            \<longrightarrow> r = Inl (SystemExit (ExitCode 1)))
       \<and> (WaitUntilRunning i \<in> set (observations w') \<and> inst_wait_until_running env i = Inl e
            \<longrightarrow> r = Inl (SystemExit (ExitCode 1)))"
  using assms unfolding main_def bind_r_def
  by (auto split: prod.splits sum.splits simp: observations_emit Let_def msg_defs
      dest!: main_steps)

lemma main_authorize_observed:
  assumes "main env w = (r, w')"
    and "fst (get_my_public_ip env w) = Inr ip"
    and "AuthorizeSecurityGroupIngress g ps \<in> set (observations w')"
    and "AuthorizeSecurityGroupIngress g ps \<notin> set (observations w)"
  shows "ps = map rule_permission (ec2_ingress_rules ip) \<or> ps = map rule_permission alb_ingress_rules"
  using assms unfolding main_def bind_r_def
  by (auto split: prod.splits sum.splits simp: observations_emit Let_def msg_defs
      dest!: main_steps)

lemma main_fallback_observed:
  assumes "main env w = (r, w')"
    and "GetParameter n \<in> set (observations w')"
    and "\<forall>n. GetParameter n \<notin> set (observations w)"
    and "ssm_get_parameter env AL2_PARAMETER = Inl e"
  shows "r = Inl (SystemExit (ExitMsg (''Failed to find AL2023 or fallback AMI. Error: '' @ str_exc e)))"
  using assms unfolding main_def bind_r_def
  by (auto split: prod.splits sum.splits simp: observations_emit Let_def msg_defs
      dest!: main_steps)

text \<open>The definitions to unfold when a run is evaluated on a concrete account.\<close>

lemmas strip_defs = py_strip_def py_lstrip.simps py_rstrip.simps whitespace_prefix_def
  whitespace_suffix_def py_whitespace_def

lemmas script_defs =
  main_def bind_r_def get_my_public_ip_def get_default_vpc_def get_subnets_for_vpc_def
  create_keypair_if_not_exists_def create_and_save_keypair_def os_open_wronly_creat_def
  file_write_def os_chmod_def os_path_exists_def create_security_group_def rule_permission_def
  ec2_ingress_rules_def alb_ingress_rules_def find_amzn2023_ami_def name_patterns_def
  py_sorted_reverse_def creation_key_def first_or_IndexError_def launch_instance_def
  main_after_launch_def create_target_group_def create_alb_def create_listener_def
  register_targets_def wait_for_targets_healthy_def describe_target_health_def report_def
  get_list_def emit_def Let_def strip_defs str_opt_def
  TEMPLATE_NAME_def KEY_NAME_def KEY_FILE_def EC2_SG_NAME_def ALB_SG_NAME_def ALB_NAME_def
  TG_NAME_def INSTANCE_NAME_def INSTANCE_TYPE_def HTTP_PORT_def SSH_PORT_def CHECKIP_URL_def
  AL2_PARAMETER_def

lemma observed_in_trace:
  "observed e \<Longrightarrow> e \<in> set (observations w) \<longleftrightarrow> e \<in> set (trace w)"
  by (simp add: observations_def)

lemma ssh_rule_open:
  assumes "ps = map rule_permission (ec2_ingress_rules ''0.0.0.0/0'') \<or> ps = map rule_permission alb_ingress_rules"
    and "p \<in> set ps"
  shows "perm_IpRanges p = [\<lparr>CidrIp = ''0.0.0.0/0''\<rparr>]"
  using assms by (auto simp: ec2_ingress_rules_def alb_ingress_rules_def rule_permission_def get_list_def)

subsection \<open>Public IP\<close>

text \<open>
  Claim C6, as stated, fails: a successful response whose trimmed body contains \<open>/\<close> is
  returned as it is, without the suffix \<open>/32\<close>.
\<close>

theorem get_my_public_ip_suffix_counterexample:
  "requests_get account_echoing_cidr CHECKIP_URL 10 = Inr ''198.51.100.7/32\<newline>''
   \<and> py_strip ''198.51.100.7/32\<newline>'' = ''198.51.100.7/32''
   \<and> fst (get_my_public_ip account_echoing_cidr empty_world) = Inr ''198.51.100.7/32''
   \<and> fst (get_my_public_ip account_echoing_cidr empty_world) \<noteq>
       Inr (py_strip ''198.51.100.7/32\<newline>'' @ ''/32'')"
  by (simp add: get_my_public_ip_def account_echoing_cidr_def fresh_account_def
      strip_defs Let_def)

text \<open>
  Claim C6, amended. \<open>get_my_public_ip\<close> never raises. On a successful response it
  returns the trimmed body, with \<open>/32\<close> appended when the trimmed body contains no \<open>/\<close>.
  When the request raises, it returns \<open>0.0.0.0/0\<close> and prints the two lines of the
  warning; then every ingress authorization that \<open>main\<close> issues carries the range
  \<open>0.0.0.0/0\<close> in its SSH rule.
\<close>

theorem get_my_public_ip_result:
  "(requests_get env CHECKIP_URL 10 = Inr text \<longrightarrow>
      fst (get_my_public_ip env w) =
        Inr (if CHR ''/'' \<in> set (py_strip text) then py_strip text else py_strip text @ ''/32''))
   \<and> (requests_get env CHECKIP_URL 10 = Inl e \<longrightarrow>
        fst (get_my_public_ip env w) = Inr ''0.0.0.0/0''
      \<and> trace (snd (get_my_public_ip env w)) =
          trace w @ [HttpGet CHECKIP_URL 10,
                     Print [S ''Unable to determine public IP automatically:'', E e],
                     Print [S ''Defaulting SSH CIDR to 0.0.0.0/0 (NOT recommended).'']]
      \<and> (AuthorizeSecurityGroupIngress g ps \<in> set (trace (snd (main env w)))
           \<and> AuthorizeSecurityGroupIngress g ps \<notin> set (trace w)
           \<and> p \<in> set ps \<and> perm_FromPort p = SSH_PORT \<longrightarrow>
          perm_IpRanges p = [\<lparr>CidrIp = ''0.0.0.0/0''\<rparr>]))
   \<and> (\<exists>ip. fst (get_my_public_ip env w) = Inr ip)"
proof -
  have ok: "fst (get_my_public_ip env w) =
        Inr (if CHR ''/'' \<in> set (py_strip text) then py_strip text else py_strip text @ ''/32'')"
    if "requests_get env CHECKIP_URL 10 = Inr text"
    using that by (simp add: get_my_public_ip_def Let_def)
  have fallback: "fst (get_my_public_ip env w) = Inr ''0.0.0.0/0''
      \<and> trace (snd (get_my_public_ip env w)) =
          trace w @ [HttpGet CHECKIP_URL 10,
                     Print [S ''Unable to determine public IP automatically:'', E e],
                     Print [S ''Defaulting SSH CIDR to 0.0.0.0/0 (NOT recommended).'']]"
    if "requests_get env CHECKIP_URL 10 = Inl e"
    using that by (simp add: get_my_public_ip_def Let_def emit_def)
  have ssh: "perm_IpRanges p = [\<lparr>CidrIp = ''0.0.0.0/0''\<rparr>]"
    if lookup: "requests_get env CHECKIP_URL 10 = Inl e"
      and new: "AuthorizeSecurityGroupIngress g ps \<in> set (trace (snd (main env w)))"
               "AuthorizeSecurityGroupIngress g ps \<notin> set (trace w)"
      and p: "p \<in> set ps"
  proof -
    have m: "main env w = (fst (main env w), snd (main env w))" by simp
    have ip: "fst (get_my_public_ip env w) = Inr ''0.0.0.0/0''" using fallback[OF lookup] by simp
    have "ps = map rule_permission (ec2_ingress_rules ''0.0.0.0/0'') \<or> ps = map rule_permission alb_ingress_rules"
      using main_authorize_observed[OF m ip, of g ps] new
      by (simp add: observed_in_trace)
    then show ?thesis using p by (rule ssh_rule_open)
  qed
  have never: "\<exists>ip. fst (get_my_public_ip env w) = Inr ip"
    by (cases "requests_get env CHECKIP_URL 10") (simp_all add: get_my_public_ip_def Let_def)
  show ?thesis using ok fallback ssh never by blast
qed

theorem get_my_public_ip_result_witness:
  "fst (get_my_public_ip fresh_account empty_world) = Inr ''203.0.113.7/32''
   \<and> fst (get_my_public_ip account_echoing_cidr empty_world) = Inr ''198.51.100.7/32''
   \<and> fst (get_my_public_ip account_echoing_padded_ip empty_world) = Inr ''203.0.113.7/32''
   \<and> fst (get_my_public_ip offline_account empty_world) = Inr ''0.0.0.0/0''
   \<and> AuthorizeSecurityGroupIngress ''sg-MosoInterior-sg-ec2''
        [\<lparr>perm_IpProtocol = ''tcp'', perm_FromPort = 22, perm_ToPort = 22,
          perm_IpRanges = [\<lparr>CidrIp = ''0.0.0.0/0''\<rparr>]\<rparr>,
         \<lparr>perm_IpProtocol = ''tcp'', perm_FromPort = 80, perm_ToPort = 80,
          perm_IpRanges = [\<lparr>CidrIp = ''0.0.0.0/0''\<rparr>]\<rparr>]
      \<in> set (trace (snd (main offline_account empty_world)))
   \<and> perm_IpRanges \<lparr>perm_IpProtocol = ''tcp'', perm_FromPort = 22, perm_ToPort = 22,
          perm_IpRanges = [\<lparr>CidrIp = ''0.0.0.0/0''\<rparr>]\<rparr> = [\<lparr>CidrIp = ''0.0.0.0/0''\<rparr>]"
proof -
  let ?p22 = "\<lparr>perm_IpProtocol = ''tcp'', perm_FromPort = 22, perm_ToPort = 22,
          perm_IpRanges = [\<lparr>CidrIp = ''0.0.0.0/0''\<rparr>]\<rparr>"
  let ?ps = "[?p22, \<lparr>perm_IpProtocol = ''tcp'', perm_FromPort = 80, perm_ToPort = 80,
          perm_IpRanges = [\<lparr>CidrIp = ''0.0.0.0/0''\<rparr>]\<rparr>]"
  have a: "requests_get fresh_account CHECKIP_URL 10 = Inr ''203.0.113.7\<newline>''"
    by (simp add: fresh_account_def)
  have a': "py_strip ''203.0.113.7\<newline>'' = ''203.0.113.7''"
    by (simp add: strip_defs)
  have b: "requests_get account_echoing_cidr CHECKIP_URL 10 = Inr ''198.51.100.7/32\<newline>''"
    by (simp add: account_echoing_cidr_def fresh_account_def)
  have b': "py_strip ''198.51.100.7/32\<newline>'' = ''198.51.100.7/32''"
    by (simp add: strip_defs)
  have n: "requests_get account_echoing_padded_ip CHECKIP_URL 10 =
             Inr ('' 203.0.113.7'' @ [CHR 0xC2, CHR 0xA0, CHR 0x0A])"
    by (simp add: account_echoing_padded_ip_def fresh_account_def)
  have n': "py_strip ('' 203.0.113.7'' @ [CHR 0xC2, CHR 0xA0, CHR 0x0A]) = ''203.0.113.7''"
    by (simp add: strip_defs)
  have c: "requests_get offline_account CHECKIP_URL 10 = Inl (OtherException ''Read timed out.'')"
    by (simp add: offline_account_def never_healthy_account_def fresh_account_def)
  have d: "AuthorizeSecurityGroupIngress ''sg-MosoInterior-sg-ec2'' ?ps
      \<in> set (trace (snd (main offline_account empty_world)))"
    by (simp add: script_defs wait_loop.simps offline_account_def never_healthy_account_def
        fresh_account_def empty_world_def)
  have e: "AuthorizeSecurityGroupIngress ''sg-MosoInterior-sg-ec2'' ?ps \<notin> set (trace empty_world)"
    by (simp add: empty_world_def)
  show ?thesis
    using get_my_public_ip_result [of fresh_account "''203.0.113.7\<newline>''" empty_world]
          get_my_public_ip_result [of account_echoing_cidr "''198.51.100.7/32\<newline>''" empty_world]
          get_my_public_ip_result [of account_echoing_padded_ip
             "'' 203.0.113.7'' @ [CHR 0xC2, CHR 0xA0, CHR 0x0A]" empty_world]
          get_my_public_ip_result [of offline_account _ empty_world "OtherException ''Read timed out.''"
             "''sg-MosoInterior-sg-ec2''" ?ps ?p22]
          a a' b b' n n' c d e
    by (simp add: SSH_PORT_def)
qed

subsection \<open>Exit status\<close>

lemma exit_status_simps:
  "exit_status (Inr u) = 0"
  "exit_status (Inl (SystemExit (ExitCode n))) = n"
  "exit_status (Inl (SystemExit (ExitMsg m))) = 1"
  "exit_status (Inl (Exc x)) = 1"
  by (simp_all add: exit_status_def)

lemma main_without_vpc:
  assumes "ec2_describe_vpcs env = Inr res" and "get_list res = []"
  shows "fst (main env w) =
    Inl (SystemExit (ExitMsg ''No default VPC found in region. Script expects a default VPC.''))"
proof -
  obtain r1 w1 where s1: "get_my_public_ip env w = (r1, w1)" by fastforce
  then obtain ip where "r1 = Inr ip" using get_my_public_ip_quiet by blast
  with s1 show ?thesis
    using assms by (simp add: main_def bind_r_def get_default_vpc_def Let_def)
qed

lemma main_without_subnets:
  assumes "ec2_describe_vpcs env = Inr (Some (v # vs))"
    and "ec2_describe_subnets env (VpcId v) = Inr res" and "get_list res = []"
  shows "fst (main env w) = Inl (SystemExit (ExitMsg ''No subnets found in default VPC.''))"
proof -
  obtain r1 w1 where s1: "get_my_public_ip env w = (r1, w1)" by fastforce
  then obtain ip where "r1 = Inr ip" using get_my_public_ip_quiet by blast
  with s1 show ?thesis
    using assms
    by (simp add: main_def bind_r_def get_default_vpc_def get_subnets_for_vpc_def get_list_def Let_def)
qed

text \<open>
  Claim C7. In a run of \<open>main\<close> that starts with an empty log: if the final success line
  is printed, \<open>main\<close> returns and the exit status is 0; if the health check timed out, the
  advisory line and the success line are printed all the same and the exit status is 0;
  if the request to create the instance, or the wait until it runs, was issued and
  raises, the process exits through \<open>sys.exit(1)\<close>; and if the lookup of the default VPC,
  or of its subnets, finds nothing, \<open>SystemExit\<close> with a message ends the process, with
  an exit status that is not 0.
\<close>

theorem main_exit_status:
  assumes "trace w = []"
  shows "(Print [S SUCCESS_MSG] \<in> set (trace (snd (main env w))) \<longrightarrow>
            fst (main env w) = Inr () \<and> exit_status (fst (main env w)) = 0)
       \<and> (Print [S TIMEOUT_MSG] \<in> set (trace (snd (main env w))) \<longrightarrow>
            exit_status (fst (main env w)) = 0
          \<and> Print [S ADVISORY_MSG] \<in> set (trace (snd (main env w)))
          \<and> Print [S SUCCESS_MSG] \<in> set (trace (snd (main env w))))
       \<and> (CreateInstances req \<in> set (trace (snd (main env w)))
            \<and> ec2_create_instances env req = Inl e \<longrightarrow>
            fst (main env w) = Inl (SystemExit (ExitCode 1)) \<and> exit_status (fst (main env w)) = 1)
       \<and> (WaitUntilRunning i \<in> set (trace (snd (main env w)))
            \<and> inst_wait_until_running env i = Inl e \<longrightarrow>
            fst (main env w) = Inl (SystemExit (ExitCode 1)) \<and> exit_status (fst (main env w)) = 1)
       \<and> (ec2_describe_vpcs env = Inr vpcs_res \<and> get_list vpcs_res = [] \<longrightarrow>
            fst (main env w) =
              Inl (SystemExit (ExitMsg ''No default VPC found in region. Script expects a default VPC.''))
          \<and> exit_status (fst (main env w)) \<noteq> 0)
       \<and> (ec2_describe_vpcs env = Inr (Some (v # vs))
            \<and> ec2_describe_subnets env (VpcId v) = Inr subnets_res \<and> get_list subnets_res = [] \<longrightarrow>
            fst (main env w) = Inl (SystemExit (ExitMsg ''No subnets found in default VPC.''))
          \<and> exit_status (fst (main env w)) \<noteq> 0)"
proof -
  have m: "main env w = (fst (main env w), snd (main env w))" by simp
  have o: "observations w = []" using assms by (simp add: observations_def)
  have success: "fst (main env w) = Inr () \<and> exit_status (fst (main env w)) = 0"
    if "Print [S SUCCESS_MSG] \<in> set (trace (snd (main env w)))"
    using main_success_observed[OF m] that o
    by (simp add: observed_in_trace exit_status_simps)
  have timeout: "exit_status (fst (main env w)) = 0
          \<and> Print [S ADVISORY_MSG] \<in> set (trace (snd (main env w)))
          \<and> Print [S SUCCESS_MSG] \<in> set (trace (snd (main env w)))"
    if "Print [S TIMEOUT_MSG] \<in> set (trace (snd (main env w)))"
    using main_timeout_observed[OF m] that o
    by (simp add: observed_in_trace exit_status_simps)
  have launch: "fst (main env w) = Inl (SystemExit (ExitCode 1)) \<and> exit_status (fst (main env w)) = 1"
    if "CreateInstances req \<in> set (trace (snd (main env w)))" "ec2_create_instances env req = Inl e"
    using main_launch_observed[OF m, of req e i] that o
    by (simp add: observed_in_trace exit_status_simps)
  have wait: "fst (main env w) = Inl (SystemExit (ExitCode 1)) \<and> exit_status (fst (main env w)) = 1"
    if "WaitUntilRunning i \<in> set (trace (snd (main env w)))" "inst_wait_until_running env i = Inl e"
    using main_launch_observed[OF m, of req e i] that o
    by (simp add: observed_in_trace exit_status_simps)
  have vpc: "fst (main env w) =
              Inl (SystemExit (ExitMsg ''No default VPC found in region. Script expects a default VPC.''))
          \<and> exit_status (fst (main env w)) \<noteq> 0"
    if "ec2_describe_vpcs env = Inr vpcs_res" "get_list vpcs_res = []"
    using main_without_vpc[OF that] by (simp add: exit_status_simps)
  have subnets: "fst (main env w) = Inl (SystemExit (ExitMsg ''No subnets found in default VPC.''))
          \<and> exit_status (fst (main env w)) \<noteq> 0"
    if "ec2_describe_vpcs env = Inr (Some (v # vs))"
      "ec2_describe_subnets env (VpcId v) = Inr subnets_res" "get_list subnets_res = []"
    using main_without_subnets[OF that] by (simp add: exit_status_simps)
  show ?thesis
    using success timeout launch wait vpc subnets by blast
qed

theorem main_exit_status_witness:
  "trace empty_world = []
   \<and> Print [S TIMEOUT_MSG] \<in> set (trace (snd (main never_healthy_account empty_world)))
   \<and> Print [S SUCCESS_MSG] \<in> set (trace (snd (main never_healthy_account empty_world)))
   \<and> exit_status (fst (main never_healthy_account empty_world)) = 0
   \<and> exit_status (fst (main account_without_capacity empty_world)) = 1
   \<and> exit_status (fst (main account_with_failing_waiter empty_world)) = 1
   \<and> fst (main account_without_vpc empty_world) =
       Inl (SystemExit (ExitMsg ''No default VPC found in region. Script expects a default VPC.''))
   \<and> exit_status (fst (main account_without_vpc empty_world)) = 1
   \<and> fst (main account_without_subnets empty_world) =
       Inl (SystemExit (ExitMsg ''No subnets found in default VPC.''))
   \<and> exit_status (fst (main account_without_subnets empty_world)) = 1"
proof -
  have w0: "trace empty_world = []" by (simp add: empty_world_def)
  have t: "Print [S TIMEOUT_MSG] \<in> set (trace (snd (main never_healthy_account empty_world)))"
    by (simp add: script_defs wait_loop.simps never_healthy_account_def fresh_account_def empty_world_def)
  have c: "CreateInstances launch_request \<in> set (trace (snd (main account_without_capacity empty_world)))"
    by (simp add: script_defs account_without_capacity_def fresh_account_def empty_world_def launch_request_def)
  have c': "ec2_create_instances account_without_capacity launch_request =
              Inl (ClientError ''InsufficientInstanceCapacity'' ''no capacity'')"
    by (simp add: account_without_capacity_def fresh_account_def)
  have r: "WaitUntilRunning ''i-1'' \<in> set (trace (snd (main account_with_failing_waiter empty_world)))"
    by (simp add: script_defs account_with_failing_waiter_def fresh_account_def empty_world_def)
  have r': "inst_wait_until_running account_with_failing_waiter ''i-1'' =
              Inl (OtherException ''Waiter InstanceRunning failed'')"
    by (simp add: account_with_failing_waiter_def fresh_account_def)
  have v: "ec2_describe_vpcs account_without_vpc = Inr (Some [])" "get_list (Some ([] :: vpc list)) = []"
    by (simp_all add: account_without_vpc_def fresh_account_def get_list_def)
  have s: "ec2_describe_vpcs account_without_subnets = Inr (Some [\<lparr>VpcId = ''vpc-1''\<rparr>])"
    "ec2_describe_subnets account_without_subnets (VpcId \<lparr>VpcId = ''vpc-1''\<rparr>) = Inr None"
    "get_list (None :: subnet list option) = []"
    by (simp_all add: account_without_subnets_def fresh_account_def get_list_def)
  note th = main_exit_status [OF w0]
  show ?thesis
    using th [of never_healthy_account]
          th [of account_without_capacity launch_request "ClientError ''InsufficientInstanceCapacity'' ''no capacity''"]
          th [of account_with_failing_waiter _ "OtherException ''Waiter InstanceRunning failed''" "''i-1''"]
          th [of account_without_vpc _ _ _ "Some []"]
          th [of account_without_subnets _ _ _ _ "\<lparr>VpcId = ''vpc-1''\<rparr>" "[]" None]
          w0 t c c' r r' v s
    by (simp add: exit_status_simps)
qed

subsection \<open>Fallback image\<close>

text \<open>
  Claim C5. When no name pattern matches any image, \<open>find_amzn2023_ami\<close> looks the
  parameter up once, after the lookups of the patterns and as its last action: it returns
  the parameter's value when the lookup succeeds, and raises \<open>SystemExit\<close> when the
  lookup raises. In a run of \<open>main\<close> that makes this lookup, a lookup that raises ends
  the process with that \<open>SystemExit\<close>, exit status 1.
\<close>

theorem find_ami_fallback:
  assumes "\<forall>pat\<in>set name_patterns. matching_images env pat = []"
  shows "trace (snd (find_amzn2023_ami env w)) =
           trace w @ [Print [S ''Searching for latest Amazon Linux 2023 AMI...'']]
             @ map DescribeImages name_patterns
             @ [Print [S ''Could not find Amazon Linux 2023 images by pattern; falling back to Amazon Linux 2 latest AMI.''],
                GetParameter AL2_PARAMETER]
       \<and> length (filter is_GetParameter (trace (snd (find_amzn2023_ami env w)))) =
           length (filter is_GetParameter (trace w)) + 1
       \<and> fst (find_amzn2023_ami env w) =
           (case ssm_get_parameter env AL2_PARAMETER of
              Inr v \<Rightarrow> Inr v
            | Inl e \<Rightarrow> Inl (SystemExit (ExitMsg (''Failed to find AL2023 or fallback AMI. Error: '' @ str_exc e))))
       \<and> (trace w0 = [] \<and> GetParameter AL2_PARAMETER \<in> set (trace (snd (main env w0)))
            \<and> ssm_get_parameter env AL2_PARAMETER = Inl x \<longrightarrow>
           fst (main env w0) =
             Inl (SystemExit (ExitMsg (''Failed to find AL2023 or fallback AMI. Error: '' @ str_exc x)))
         \<and> exit_status (fst (main env w0)) = 1)"
proof -
  have run: "fst (main env w0) =
             Inl (SystemExit (ExitMsg (''Failed to find AL2023 or fallback AMI. Error: '' @ str_exc x)))
         \<and> exit_status (fst (main env w0)) = 1"
    if "trace w0 = []" "GetParameter AL2_PARAMETER \<in> set (trace (snd (main env w0)))"
      "ssm_get_parameter env AL2_PARAMETER = Inl x"
  proof -
    have m: "main env w0 = (fst (main env w0), snd (main env w0))" by simp
    have o: "observations w0 = []" using that(1) by (simp add: observations_def)
    show ?thesis
      using main_fallback_observed[OF m, of AL2_PARAMETER x] that(2,3) o
      by (simp add: observed_in_trace exit_status_simps)
  qed
  have empty: "concat (map (matching_images env) name_patterns) = []"
    using assms by simp
  have flt: "filter is_GetParameter (map DescribeImages pats) = []" for pats
    by (induction pats) simp_all
  have local: "trace (snd (find_amzn2023_ami env w)) =
           trace w @ [Print [S ''Searching for latest Amazon Linux 2023 AMI...'']]
             @ map DescribeImages name_patterns
             @ [Print [S ''Could not find Amazon Linux 2023 images by pattern; falling back to Amazon Linux 2 latest AMI.''],
                GetParameter AL2_PARAMETER]
       \<and> length (filter is_GetParameter (trace (snd (find_amzn2023_ami env w)))) =
           length (filter is_GetParameter (trace w)) + 1
       \<and> fst (find_amzn2023_ami env w) =
           (case ssm_get_parameter env AL2_PARAMETER of
              Inr v \<Rightarrow> Inr v
            | Inl e \<Rightarrow> Inl (SystemExit (ExitMsg (''Failed to find AL2023 or fallback AMI. Error: '' @ str_exc e))))"
    by (cases "ssm_get_parameter env AL2_PARAMETER")
       (simp_all add: find_amzn2023_ami_def collect_images_result empty emit_def Let_def flt)
  show ?thesis using local run by blast
qed

theorem find_ami_fallback_witness:
  "fst (find_amzn2023_ami account_without_images empty_world) = Inr ''ami-al2''
   \<and> length (filter is_GetParameter (trace (snd (find_amzn2023_ami account_without_images empty_world)))) = 1
   \<and> fst (find_amzn2023_ami account_without_fallback empty_world) =
       Inl (SystemExit (ExitMsg ''Failed to find AL2023 or fallback AMI. Error: parameter not found''))
   \<and> length (filter is_GetParameter (trace (snd (find_amzn2023_ami account_without_fallback empty_world)))) = 1
   \<and> fst (main account_without_fallback empty_world) =
       Inl (SystemExit (ExitMsg ''Failed to find AL2023 or fallback AMI. Error: parameter not found''))
   \<and> exit_status (fst (main account_without_fallback empty_world)) = 1"
proof -
  have w0: "trace empty_world = []" by (simp add: empty_world_def)
  have g: "GetParameter AL2_PARAMETER \<in> set (trace (snd (main account_without_fallback empty_world)))"
    by (simp add: script_defs account_without_fallback_def account_without_images_def
        fresh_account_def empty_world_def)
  have x: "ssm_get_parameter account_without_fallback AL2_PARAMETER =
             Inl (ClientError ''ParameterNotFound'' ''parameter not found'')"
    by (simp add: account_without_fallback_def account_without_images_def fresh_account_def)
  have a: "\<forall>pat\<in>set name_patterns. matching_images account_without_images pat = []"
    by (simp add: name_patterns_def matching_images_def account_without_images_def get_list_def)
  have b: "\<forall>pat\<in>set name_patterns. matching_images account_without_fallback pat = []"
    by (simp add: name_patterns_def matching_images_def account_without_fallback_def
        account_without_images_def get_list_def)
  note found = find_ami_fallback [OF a, of empty_world]
  note failed = find_ami_fallback [OF b, of empty_world empty_world
      "ClientError ''ParameterNotFound'' ''parameter not found''"]
  have r1: "fst (find_amzn2023_ami account_without_images empty_world) = Inr ''ami-al2''"
    using found by (simp add: account_without_images_def fresh_account_def)
  have c1: "length (filter is_GetParameter
              (trace (snd (find_amzn2023_ami account_without_images empty_world)))) = 1"
    using found by (simp add: empty_world_def)
  have r2: "fst (find_amzn2023_ami account_without_fallback empty_world) =
       Inl (SystemExit (ExitMsg ''Failed to find AL2023 or fallback AMI. Error: parameter not found''))"
    using failed
    by (simp add: account_without_fallback_def account_without_images_def fresh_account_def)
  have c2: "length (filter is_GetParameter
              (trace (snd (find_amzn2023_ami account_without_fallback empty_world)))) = 1"
    using failed by (simp add: empty_world_def)
  have run: "fst (main account_without_fallback empty_world) =
       Inl (SystemExit (ExitMsg ''Failed to find AL2023 or fallback AMI. Error: parameter not found''))
     \<and> exit_status (fst (main account_without_fallback empty_world)) = 1"
    using failed w0 g x by (simp add: exit_status_simps)
  show ?thesis using r1 c1 r2 c2 run by blast
qed

end
